theory Spec2Isabelle
  imports Main
begin

section \<open>Values exchanged with clients and with the driver\<close>

text \<open>
  Payloads travel as JSON. Values that the server only passes through (the inclusion
  grant, the PIN, a log configuration, a state dump, the results of the driver) are kept
  as JSON values.
\<close>

datatype json =
    JNull
  | JBool bool
  | JNum int
  | JStr string
  | JArr "json list"
  | JObj "(string \<times> json) list"

text \<open>
  The command names are string enums declared in \<^verbatim>\<open>./command\<close>,
  \<^verbatim>\<open>./controller/command\<close> and \<^verbatim>\<open>./instance\<close>; an enum is a datatype here.
  A command outside the four server commands is \<^verbatim>\<open>"<namespace>.<action>"\<close>, and
  \<^verbatim>\<open>msg.command.split(".")[0]\<close> selects the instance handler.
\<close>

datatype ControllerCommand =
    beginInclusion
  | grantSecurityClasses
  | validateDSKAndEnterPIN
  | stopInclusion
  | beginExclusion
  | stopExclusion
  | removeFailedNode
  | replaceFailedNode
  | healNode
  | beginHealingNetwork
  | stopHealingNetwork
  | isFailedNode
  | getAssociationGroups
  | getAssociations
  | isAssociationAllowed
  | addAssociations
  | removeAssociations
  | removeNodeFromAllAssocations
  | removeNodeFromAllAssociations
  | getNodeNeighbors

datatype Instance = controller | driver | node | multicast_group | broadcast_node | endpoint

datatype command =
    setApiSchema
  | startListening
  | updateLogConfig
  | getLogConfig
  | ControllerCmd ControllerCommand
  | ControllerOther string
    \<comment> \<open>namespace \<^verbatim>\<open>controller\<close>, action outside the enum: the \<^verbatim>\<open>default\<close> branch of the switch\<close>
  | InstanceCmd Instance string
    \<comment> \<open>a command of one of the other namespaces\<close>
  | NoInstanceCmd string string
    \<comment> \<open>the text before the first dot, which is no key of \<^verbatim>\<open>instanceHandlers\<close>, and the rest\<close>
  | NoCommand
    \<comment> \<open>the frame has no member \<^verbatim>\<open>command\<close>, or one that is not a string\<close>

datatype InclusionStrategy = Default | SmartStart | Insecure | Security_S0 | Security_S2

text \<open>
  The variables a \<^verbatim>\<open>userCallbacks\<close> object closes over: the session that started the
  operation and the two local variables of \<^verbatim>\<open>processInclusionOptions\<close> that hold the
  deferred promises this operation has created. A promise is known by its identity, a
  position in the heap of promises.
\<close>

type_synonym promise = nat

record UserCallbacks =
  cb_client :: nat
  local_grantSecurityClassesPromise :: "promise option"
  local_validateDSKAndEnterPinPromise :: "promise option"

record InclusionOptions =
  strategy :: InclusionStrategy
  userCallbacks :: "UserCallbacks option"
  other_options :: json

record incoming =
  command :: command
  messageId :: "json option"
    \<comment> \<open>\<open>None\<close> when the frame has no member \<^verbatim>\<open>messageId\<close>\<close>
  msg_schemaVersion :: int
  config :: json
  nodeId :: int
  endpoint_index :: json
  group :: json
  association :: json
  associations :: json
  options :: "InclusionOptions option"
    \<comment> \<open>\<^verbatim>\<open>"options" in message\<close>: \<open>None\<close> when the key is absent\<close>
  includeNonSecure :: "bool option"
    \<comment> \<open>\<^verbatim>\<open>"includeNonSecure" in message\<close>: \<open>None\<close> when the key is absent\<close>
  inclusionGrant :: json
  pin :: json

text \<open>
  What \<^verbatim>\<open>JSON.parse\<close> returns when it does not throw: the value \<^verbatim>\<open>null\<close>, on which
  reading a member throws, or any other value, whose members are read as the message
  types declare them. A number, a string, a boolean, an array or an object without a
  string \<^verbatim>\<open>command\<close> is a value with \<open>NoCommand\<close>.
\<close>

datatype parsed = ParsedNull | Parsed incoming

subsection \<open>Errors\<close>

text \<open>
  Modelled from the spec: the enum \<^verbatim>\<open>ErrorCode\<close> and the error classes live in
  \<^verbatim>\<open>./error\<close>, which is not among the sources. \<^verbatim>\<open>server.ts\<close> names the members
  \<^verbatim>\<open>unknownError\<close> and \<^verbatim>\<open>zwaveError\<close>; the spec names the failures unknown command,
  schema incompatible, conflict already in progress and phase not in progress. Each error
  class carries its own code; the constructor arguments are the ones of the \<^verbatim>\<open>new\<close>
  expressions in the sources.
\<close>

datatype ErrorCode =
    unknownError
  | unknownCommand
  | schemaIncompatible
  | zwaveError
  | inclusionPhaseNotInProgress
  | inclusionAlreadyInProgress
  | otherErrorCode string

datatype BaseError =
    UnknownCommandError command
  | SchemaIncompatibleError int
  | InclusionAlreadyInProgressError
  | InclusionPhaseNotInProgressError string
  | OtherBaseError string json
    \<comment> \<open>any other subclass of \<^verbatim>\<open>BaseError\<close>, with its code and remaining fields\<close>

fun errorCode :: "BaseError \<Rightarrow> ErrorCode" where
  "errorCode (UnknownCommandError c) = unknownCommand"
| "errorCode (SchemaIncompatibleError v) = schemaIncompatible"
| "errorCode InclusionAlreadyInProgressError = inclusionAlreadyInProgress"
| "errorCode (InclusionPhaseNotInProgressError phase) = inclusionPhaseNotInProgress"
| "errorCode (OtherBaseError code rest) = otherErrorCode code"

text \<open>What a \<^verbatim>\<open>throw\<close> can carry, as the \<^verbatim>\<open>catch\<close> of \<^verbatim>\<open>receiveMessage\<close> tells them apart.\<close>

datatype thrown =
    Base BaseError
  | ZWaveError json string
    \<comment> \<open>\<^verbatim>\<open>err.code\<close> and \<^verbatim>\<open>err.message\<close> of the driver's error\<close>
  | Unexpected

subsection \<open>Outgoing messages\<close>

datatype OutgoingEvent = OutgoingEvent string string "(string \<times> json) list"
  \<comment> \<open>\<^verbatim>\<open>source\<close>, \<^verbatim>\<open>event\<close>, and the remaining fields\<close>

datatype OutgoingMessage =
    VersionMessage json json json int int
    \<comment> \<open>\<^verbatim>\<open>driverVersion\<close>, \<^verbatim>\<open>serverVersion\<close>, \<^verbatim>\<open>homeId\<close>, \<^verbatim>\<open>minSchemaVersion\<close>, \<^verbatim>\<open>maxSchemaVersion\<close>\<close>
  | ResultSuccess "json option" json
    \<comment> \<open>\<^verbatim>\<open>messageId\<close>, \<^verbatim>\<open>result\<close>\<close>
  | ResultError "json option" ErrorCode "BaseError option"
    \<comment> \<open>\<^verbatim>\<open>messageId\<close>, \<^verbatim>\<open>errorCode\<close>, \<^verbatim>\<open>args\<close>: the remaining fields of the error, \<open>None\<close> for \<^verbatim>\<open>{}\<close>\<close>
  | ResultZWaveError "json option" json string
    \<comment> \<open>\<^verbatim>\<open>messageId\<close>, \<^verbatim>\<open>zwaveErrorCode\<close>, \<^verbatim>\<open>zwaveErrorMessage\<close>\<close>
  | EventMessage OutgoingEvent

section \<open>The state of the server\<close>

text \<open>
  A socket is seen through the calls the server makes on it and through its
  \<^verbatim>\<open>readyState\<close>. What the WebSocket library does with a call is outside the
  sources; calls on the logger are left out.
\<close>

datatype readyState = CONNECTING | OPEN | CLOSING | CLOSED

datatype socket_call =
    Send OutgoingMessage bool
    \<comment> \<open>\<^verbatim>\<open>socket.send(JSON.stringify(data), { compress })\<close>\<close>
  | Ping
  | Close

text \<open>
  What a session does is kept in the order in which it does it: its calls on the socket
  and its assignments to its own fields.
\<close>

datatype effect =
    Call socket_call
  | Set_receiveEvents bool
  | Set_schemaVersion int
  | Set_outstandingPing bool

record Client =
  receiveEvents :: bool
  outstandingPing :: bool
  schemaVersion :: int
  receiveLogs :: bool
  socket_readyState :: readyState
  timeline :: "effect list"

text \<open>The calls on the socket of a session, in order.\<close>

fun calls_of :: "effect list \<Rightarrow> socket_call list" where
  "calls_of [] = []"
| "calls_of (Call x # es) = x # calls_of es"
| "calls_of (e # es) = calls_of es"

definition socket_calls :: "Client \<Rightarrow> socket_call list" where
  "socket_calls cl = calls_of (timeline cl)"

text \<open>
  A deferred promise is pending until it is resolved or rejected; settling it a second
  time does nothing. Each of the two callbacks registers its own \<^verbatim>\<open>finally\<close> handler
  on the promise it creates; the promise records which one. The handler does not run when
  the promise is settled but later, as a microtask, once the code that settled the
  promise has returned.
\<close>

datatype promise_state = Pending | Resolved json | Rejected string

datatype channel = GrantSecurityClasses | ValidateDSKAndEnterPin

record DeferredPromise =
  promise_state :: promise_state
  on_finally :: channel

text \<open>The calls the handlers make on the driver and its controller.\<close>

datatype driver_call =
    BeginInclusion InclusionOptions
  | StopInclusion
  | BeginExclusion
  | StopExclusion
  | RemoveFailedNode int
  | ReplaceFailedNode int InclusionOptions
  | HealNode int
  | BeginHealingNetwork
  | StopHealingNetwork
  | IsFailedNode int
  | GetAssociationGroups int json
  | GetAssociations int json
  | IsAssociationAllowed int json json json
  | AddAssociations int json json json
  | RemoveAssociations int json json json
  | RemoveNodeFromAllAssociations int
  | GetNodeNeighbors int
  | UpdateLogConfig json

text \<open>
  The server: the \<^verbatim>\<open>Client\<close> objects by identity (\<open>sessions\<close>), the fields of the
  \<^verbatim>\<open>ClientsController\<close>, the heap of deferred promises, the settled promises whose
  \<^verbatim>\<open>finally\<close> handler has yet to run (\<open>microtasks\<close>, oldest first), and the calls
  made on the driver so far.
\<close>

record server =
  sessions :: "nat \<Rightarrow> Client"
  clients :: "nat list"
  pingInterval :: bool
  eventForwarder :: bool
  grantSecurityClassesPromise :: "promise option"
  validateDSKAndEnterPinPromise :: "promise option"
  promises :: "DeferredPromise list"
  microtasks :: "promise list"
  driver_calls :: "driver_call list"

text \<open>
  What the rest of the program, the runtime and the driver supply: the two constants of
  \<^verbatim>\<open>./const\<close>, the dumps of \<^verbatim>\<open>./state\<close> (taken to return a value for every
  schema version), the versions sent on connect, the parser (\<open>None\<close> when
  \<^verbatim>\<open>JSON.parse\<close> throws), the driver's answer to each call (it may depend on the calls
  before), the handlers of the namespaces other than \<^verbatim>\<open>controller\<close>, whose files are
  not among the sources, and the members that the object \<^verbatim>\<open>instanceHandlers\<close> inherits
  from \<^verbatim>\<open>Object.prototype\<close>: the lookup \<^verbatim>\<open>this.instanceHandlers[instance]\<close> finds
  them too (\<^verbatim>\<open>constructor\<close>, \<^verbatim>\<open>toString\<close>, ...), and what is found is called with
  the message; \<open>inherited_members\<close> gives, for such a name, what the call returns (as it
  is serialised) or throws.
\<close>

record env =
  minSchemaVersion :: int
  maxSchemaVersion :: int
  libVersion :: json
  version :: json
  homeId :: json
  dumpState :: "driver_call list \<Rightarrow> int \<Rightarrow> json"
  dumpLogConfig :: "driver_call list \<Rightarrow> int \<Rightarrow> json"
  JSON_parse :: "string \<Rightarrow> parsed option"
  driver_answer :: "driver_call list \<Rightarrow> driver_call \<Rightarrow> thrown + json"
  otherHandlers :: "Instance \<Rightarrow> incoming \<Rightarrow> nat \<Rightarrow> server \<Rightarrow> (thrown + json) \<times> server"
  inherited_members :: "string \<Rightarrow> (incoming \<Rightarrow> thrown + json) option"

section \<open>The session: \<^verbatim>\<open>class Client\<close>\<close>

definition socket_send :: "OutgoingMessage \<Rightarrow> bool \<Rightarrow> Client \<Rightarrow> Client" where
  "socket_send d compress cl = cl\<lparr>timeline := timeline cl @ [Call (Send d compress)]\<rparr>"

definition socket_ping :: "Client \<Rightarrow> Client" where
  "socket_ping cl = cl\<lparr>timeline := timeline cl @ [Call Ping]\<rparr>"

definition socket_close :: "Client \<Rightarrow> Client" where
  "socket_close cl =
     cl\<lparr>timeline := timeline cl @ [Call Close],
        socket_readyState := (if socket_readyState cl = CLOSED then CLOSED else CLOSING)\<rparr>"

text \<open>The assignments of the session to its fields.\<close>

definition set_receiveEvents :: "bool \<Rightarrow> Client \<Rightarrow> Client" where
  "set_receiveEvents b cl = cl\<lparr>receiveEvents := b, timeline := timeline cl @ [Set_receiveEvents b]\<rparr>"

definition set_schemaVersion :: "int \<Rightarrow> Client \<Rightarrow> Client" where
  "set_schemaVersion v cl = cl\<lparr>schemaVersion := v, timeline := timeline cl @ [Set_schemaVersion v]\<rparr>"

definition set_outstandingPing :: "bool \<Rightarrow> Client \<Rightarrow> Client" where
  "set_outstandingPing b cl =
     cl\<lparr>outstandingPing := b, timeline := timeline cl @ [Set_outstandingPing b]\<rparr>"

definition new_Client :: "env \<Rightarrow> Client" where
  "new_Client e =
     \<lparr>receiveEvents = False, outstandingPing = False, schemaVersion = minSchemaVersion e,
      receiveLogs = False, socket_readyState = OPEN, timeline = []\<rparr>"

definition isConnected :: "Client \<Rightarrow> bool" where
  "isConnected cl = (socket_readyState cl = OPEN)"

text \<open>A method of the session \<open>c\<close> changes the object that \<open>c\<close> names.\<close>

definition update_client :: "nat \<Rightarrow> (Client \<Rightarrow> Client) \<Rightarrow> server \<Rightarrow> server" where
  "update_client c f w = w\<lparr>sessions := (sessions w)(c := f (sessions w c))\<rparr>"

definition sendData :: "nat \<Rightarrow> OutgoingMessage \<Rightarrow> bool \<Rightarrow> server \<Rightarrow> server" where
  "sendData c d compress w = update_client c (socket_send d compress) w"

definition sendVersion :: "env \<Rightarrow> nat \<Rightarrow> server \<Rightarrow> server" where
  "sendVersion e c w =
     sendData c (VersionMessage (libVersion e) (version e) (homeId e)
                   (minSchemaVersion e) (maxSchemaVersion e)) False w"

definition sendResultSuccess ::
  "nat \<Rightarrow> json option \<Rightarrow> json \<Rightarrow> bool \<Rightarrow> server \<Rightarrow> server" where
  "sendResultSuccess c mid result compress w = sendData c (ResultSuccess mid result) compress w"

definition sendResultError ::
  "nat \<Rightarrow> json option \<Rightarrow> ErrorCode \<Rightarrow> BaseError option \<Rightarrow> server \<Rightarrow> server" where
  "sendResultError c mid code args w = sendData c (ResultError mid code args) False w"

definition sendResultZWaveError ::
  "nat \<Rightarrow> json option \<Rightarrow> json \<Rightarrow> string \<Rightarrow> server \<Rightarrow> server" where
  "sendResultZWaveError c mid zjsErrorCode message w =
     sendData c (ResultZWaveError mid zjsErrorCode message) False w"

definition sendEvent :: "nat \<Rightarrow> OutgoingEvent \<Rightarrow> server \<Rightarrow> server" where
  "sendEvent c event w = sendData c (EventMessage event) False w"

definition disconnect :: "nat \<Rightarrow> server \<Rightarrow> server" where
  "disconnect c w = update_client c socket_close w"

definition checkAlive :: "nat \<Rightarrow> server \<Rightarrow> server" where
  "checkAlive c w =
     (if outstandingPing (sessions w c) then disconnect c w
      else update_client c (\<lambda>cl. socket_ping (set_outstandingPing True cl)) w)"

text \<open>The listener for \<^verbatim>\<open>pong\<close> that the constructor registers.\<close>

definition on_pong :: "nat \<Rightarrow> server \<Rightarrow> server" where
  "on_pong c w = update_client c (set_outstandingPing False) w"

section \<open>Deferred promises and the callbacks handed to the driver\<close>

text \<open>
  \<^verbatim>\<open>createDeferredPromise()\<close> followed by the registration of the \<^verbatim>\<open>finally\<close> handler:
  a new pending promise at the end of the heap.
\<close>

definition createDeferredPromise :: "channel \<Rightarrow> server \<Rightarrow> promise \<times> server" where
  "createDeferredPromise ch w =
     (length (promises w),
      w\<lparr>promises := promises w @ [\<lparr>promise_state = Pending, on_finally = ch\<rparr>]\<rparr>)"

text \<open>
  The two \<^verbatim>\<open>finally\<close> handlers: each deletes the field of the \<^verbatim>\<open>ClientsController\<close>
  only when the field still holds the very promise the handler was registered on.
\<close>

definition finally_handler :: "channel \<Rightarrow> promise \<Rightarrow> server \<Rightarrow> server" where
  "finally_handler ch p w =
     (case ch of
        GrantSecurityClasses \<Rightarrow>
          (if grantSecurityClassesPromise w = Some p
           then w\<lparr>grantSecurityClassesPromise := None\<rparr> else w)
      | ValidateDSKAndEnterPin \<Rightarrow>
          (if validateDSKAndEnterPinPromise w = Some p
           then w\<lparr>validateDSKAndEnterPinPromise := None\<rparr> else w))"

text \<open>
  Settling a pending promise fixes its outcome and queues its \<^verbatim>\<open>finally\<close> handler.
  Settling a promise that is no longer pending does nothing.
\<close>

definition settle :: "promise \<Rightarrow> promise_state \<Rightarrow> server \<Rightarrow> server" where
  "settle p outcome w =
     (if p < length (promises w) \<and> promise_state (promises w ! p) = Pending
      then w\<lparr>promises := (promises w)[p := (promises w ! p)\<lparr>promise_state := outcome\<rparr>],
             microtasks := microtasks w @ [p]\<rparr>
      else w)"

text \<open>
  The queued handlers run, oldest first, when the running code has returned or waits at
  an \<^verbatim>\<open>await\<close>.
\<close>

definition run_reaction :: "promise \<Rightarrow> server \<Rightarrow> server" where
  "run_reaction p w =
     (if p < length (promises w) then finally_handler (on_finally (promises w ! p)) p w else w)"

definition run_microtasks :: "server \<Rightarrow> server" where
  "run_microtasks w = fold run_reaction (microtasks w) (w\<lparr>microtasks := []\<rparr>)"

definition resolve :: "promise \<Rightarrow> json \<Rightarrow> server \<Rightarrow> server" where
  "resolve p v w = settle p (Resolved v) w"

definition reject :: "promise \<Rightarrow> string \<Rightarrow> server \<Rightarrow> server" where
  "reject p reason w = settle p (Rejected reason) w"

definition is_pending :: "server \<Rightarrow> promise \<Rightarrow> bool" where
  "is_pending w p = (p < length (promises w) \<and> promise_state (promises w ! p) = Pending)"

text \<open>
  The three members of \<^verbatim>\<open>options.userCallbacks\<close>. The driver calls them whenever it
  wants; each takes the variables of its closure and gives them back updated.
\<close>

definition cb_grantSecurityClasses ::
  "UserCallbacks \<Rightarrow> json \<Rightarrow> server \<Rightarrow> promise option \<times> UserCallbacks \<times> server" where
  "cb_grantSecurityClasses cbs requested w =
     (case createDeferredPromise GrantSecurityClasses w of
        (p, w1) \<Rightarrow>
          (let w2 = w1\<lparr>grantSecurityClassesPromise := Some p\<rparr>;
               cbs' = cbs\<lparr>local_grantSecurityClassesPromise := Some p\<rparr>;
               w3 = sendEvent (cb_client cbs)
                      (OutgoingEvent ''controller'' ''grant security classes''
                         [(''requested'', requested)]) w2
           in (grantSecurityClassesPromise w3, cbs', w3)))"

definition cb_validateDSKAndEnterPIN ::
  "UserCallbacks \<Rightarrow> json \<Rightarrow> server \<Rightarrow> promise option \<times> UserCallbacks \<times> server" where
  "cb_validateDSKAndEnterPIN cbs dsk w =
     (case createDeferredPromise ValidateDSKAndEnterPin w of
        (p, w1) \<Rightarrow>
          (let w2 = w1\<lparr>validateDSKAndEnterPinPromise := Some p\<rparr>;
               cbs' = cbs\<lparr>local_validateDSKAndEnterPinPromise := Some p\<rparr>;
               w3 = sendEvent (cb_client cbs)
                      (OutgoingEvent ''controller'' ''validate dsk and enter pin''
                         [(''dsk'', dsk)]) w2
           in (validateDSKAndEnterPinPromise w3, cbs', w3)))"

definition cb_abort :: "UserCallbacks \<Rightarrow> server \<Rightarrow> server" where
  "cb_abort cbs w =
     (let w1 = (case local_grantSecurityClassesPromise cbs of
                  None \<Rightarrow> w | Some p \<Rightarrow> reject p ''aborted'' w);
          w2 = (case local_validateDSKAndEnterPinPromise cbs of
                  None \<Rightarrow> w1 | Some p \<Rightarrow> reject p ''aborted'' w1)
      in sendEvent (cb_client cbs) (OutgoingEvent ''controller'' ''inclusion aborted'' []) w2)"

definition processInclusionOptions :: "nat \<Rightarrow> incoming \<Rightarrow> InclusionOptions" where
  "processInclusionOptions client message =
     (case options message of
        Some opts \<Rightarrow>
          (if strategy opts = Default \<or> strategy opts = Security_S2
           then opts\<lparr>userCallbacks :=
                  Some \<lparr>cb_client = client,
                        local_grantSecurityClassesPromise = None,
                        local_validateDSKAndEnterPinPromise = None\<rparr>\<rparr>
           else opts)
      | None \<Rightarrow>
          (if includeNonSecure message = Some True
           then \<lparr>strategy = Insecure, userCallbacks = None, other_options = JObj []\<rparr>
           else \<lparr>strategy = Security_S0, userCallbacks = None, other_options = JObj []\<rparr>))"

section \<open>The handler of the \<^verbatim>\<open>controller\<close> namespace\<close>

text \<open>A call on the driver is recorded; its answer is a value or something thrown.\<close>

definition call_driver :: "env \<Rightarrow> driver_call \<Rightarrow> server \<Rightarrow> (thrown + json) \<times> server" where
  "call_driver e dc w =
     (driver_answer e (driver_calls w) dc, w\<lparr>driver_calls := driver_calls w @ [dc]\<rparr>)"

text \<open>The call, and the object literal built from its value when it returns.\<close>

definition returning ::
  "env \<Rightarrow> driver_call \<Rightarrow> (json \<Rightarrow> json) \<Rightarrow> server \<Rightarrow> (thrown + json) \<times> server" where
  "returning e dc wrap w =
     (case call_driver e dc w of
        (Inl err, w') \<Rightarrow> (Inl err, w')
      | (Inr v, w') \<Rightarrow> (Inr (wrap v), w'))"

definition field :: "string \<Rightarrow> json \<Rightarrow> json" where
  "field k v = JObj [(k, v)]"

definition empty_result :: "json \<Rightarrow> json" where
  "empty_result v = JObj []"

fun handle_controller ::
  "env \<Rightarrow> ControllerCommand \<Rightarrow> incoming \<Rightarrow> nat \<Rightarrow> server \<Rightarrow> (thrown + json) \<times> server" where
  "handle_controller e beginInclusion message client w =
     (if grantSecurityClassesPromise w \<noteq> None \<or> validateDSKAndEnterPinPromise w \<noteq> None
      then (Inl (Base InclusionAlreadyInProgressError), w)
      else returning e (BeginInclusion (processInclusionOptions client message))
             (field ''success'') w)"
| "handle_controller e grantSecurityClasses message client w =
     (case grantSecurityClassesPromise w of
        None \<Rightarrow>
          (Inl (Base (InclusionPhaseNotInProgressError ''grantSecurityClassesPromise'')), w)
      | Some p \<Rightarrow> (Inr (JObj []), resolve p (inclusionGrant message) w))"
| "handle_controller e validateDSKAndEnterPIN message client w =
     (case validateDSKAndEnterPinPromise w of
        None \<Rightarrow>
          (Inl (Base (InclusionPhaseNotInProgressError ''validateDSKAndEnterPinPromise'')), w)
      | Some p \<Rightarrow> (Inr (JObj []), resolve p (pin message) w))"
| "handle_controller e stopInclusion message client w =
     returning e StopInclusion (field ''success'') w"
| "handle_controller e beginExclusion message client w =
     returning e BeginExclusion (field ''success'') w"
| "handle_controller e stopExclusion message client w =
     returning e StopExclusion (field ''success'') w"
| "handle_controller e removeFailedNode message client w =
     returning e (RemoveFailedNode (nodeId message)) empty_result w"
| "handle_controller e replaceFailedNode message client w =
     returning e (ReplaceFailedNode (nodeId message) (processInclusionOptions client message))
       (field ''success'') w"
| "handle_controller e healNode message client w =
     returning e (HealNode (nodeId message)) (field ''success'') w"
| "handle_controller e beginHealingNetwork message client w =
     returning e BeginHealingNetwork (field ''success'') w"
| "handle_controller e stopHealingNetwork message client w =
     returning e StopHealingNetwork (field ''success'') w"
| "handle_controller e isFailedNode message client w =
     returning e (IsFailedNode (nodeId message)) (field ''failed'') w"
| "handle_controller e getAssociationGroups message client w =
     returning e (GetAssociationGroups (nodeId message) (endpoint_index message))
       (field ''groups'') w"
| "handle_controller e getAssociations message client w =
     returning e (GetAssociations (nodeId message) (endpoint_index message))
       (field ''associations'') w"
| "handle_controller e isAssociationAllowed message client w =
     returning e (IsAssociationAllowed (nodeId message) (endpoint_index message)
                    (group message) (association message))
       (field ''allowed'') w"
| "handle_controller e addAssociations message client w =
     returning e (AddAssociations (nodeId message) (endpoint_index message)
                    (group message) (associations message))
       empty_result w"
| "handle_controller e removeAssociations message client w =
     returning e (RemoveAssociations (nodeId message) (endpoint_index message)
                    (group message) (associations message))
       empty_result w"
| "handle_controller e removeNodeFromAllAssocations message client w =
     returning e (RemoveNodeFromAllAssociations (nodeId message)) empty_result w"
| "handle_controller e removeNodeFromAllAssociations message client w =
     returning e (RemoveNodeFromAllAssociations (nodeId message)) empty_result w"
| "handle_controller e getNodeNeighbors message client w =
     returning e (GetNodeNeighbors (nodeId message)) (field ''neighbors'') w"

text \<open>\<^verbatim>\<open>ControllerMessageHandler.handle\<close>: the switch, with its \<^verbatim>\<open>default\<close> branch.\<close>

definition handle :: "env \<Rightarrow> incoming \<Rightarrow> nat \<Rightarrow> server \<Rightarrow> (thrown + json) \<times> server" where
  "handle e message client w =
     (case command message of
        ControllerCmd cc \<Rightarrow> handle_controller e cc message client w
      | _ \<Rightarrow> (Inl (Base (UnknownCommandError (command message))), w))"

section \<open>\<^verbatim>\<open>Client.receiveMessage\<close>\<close>

text \<open>
  \<open>receiveMessage\<close> is one frame processed in a turn of its own. The answer of the driver
  that a handler awaits is taken at once. Where \<^verbatim>\<open>receiveMessage\<close> awaits the handler,
  the queued \<^verbatim>\<open>finally\<close> handlers run before the result is sent. Frames that arrive in
  one turn are not a sequence of \<open>receiveMessage\<close>: their handlers run one after the other
  before any queued handler does.
\<close>

text \<open>\<^verbatim>\<open>msg.command.split(".")[0]\<close>, as a key of \<^verbatim>\<open>instanceHandlers\<close> itself.\<close>

fun instance_of :: "command \<Rightarrow> Instance option" where
  "instance_of (ControllerCmd cc) = Some controller"
| "instance_of (ControllerOther a) = Some controller"
| "instance_of (InstanceCmd i a) = Some i"
| "instance_of _ = None"

definition instanceHandlers ::
  "env \<Rightarrow> Instance \<Rightarrow> incoming \<Rightarrow> nat \<Rightarrow> server \<Rightarrow> (thrown + json) \<times> server" where
  "instanceHandlers e i message client w =
     (if i = controller then handle e message client w
      else otherHandlers e i message client w)"

text \<open>
  What follows the \<^verbatim>\<open>await\<close>: a handler that threw makes the \<^verbatim>\<open>try\<close> throw, the
  result of one that returned is sent.
\<close>

definition awaited ::
  "nat \<Rightarrow> incoming \<Rightarrow> thrown + json \<Rightarrow> server \<Rightarrow> thrown option \<times> server" where
  "awaited c msg r w =
     (case r of
        Inl err \<Rightarrow> (Some err, w)
      | Inr result \<Rightarrow> (None, sendResultSuccess c (messageId msg) result False w))"

text \<open>
  The body of the second \<^verbatim>\<open>try\<close>: what it throws, if anything, and the state it
  leaves. Without a string \<^verbatim>\<open>command\<close> the four comparisons fail and
  \<^verbatim>\<open>msg.command.split\<close> throws a \<^verbatim>\<open>TypeError\<close>.
\<close>

definition try_block :: "env \<Rightarrow> nat \<Rightarrow> incoming \<Rightarrow> server \<Rightarrow> thrown option \<times> server" where
  "try_block e c msg w =
     (case command msg of
        setApiSchema \<Rightarrow>
          (let w1 = update_client c (set_schemaVersion (msg_schemaVersion msg)) w
           in if schemaVersion (sessions w1 c) < minSchemaVersion e
                 \<or> schemaVersion (sessions w1 c) > maxSchemaVersion e
              then (Some (Base (SchemaIncompatibleError (schemaVersion (sessions w1 c)))), w1)
              else (None, sendResultSuccess c (messageId msg) (JObj []) False w1))
      | startListening \<Rightarrow>
          (let w1 = sendResultSuccess c (messageId msg)
                      (JObj [(''state'',
                              dumpState e (driver_calls w) (schemaVersion (sessions w c)))])
                      True w
           in (None, update_client c (set_receiveEvents True) w1))
      | updateLogConfig \<Rightarrow>
          (case call_driver e (UpdateLogConfig (config msg)) w of
             (Inl err, w1) \<Rightarrow> (Some err, w1)
           | (Inr v, w1) \<Rightarrow> (None, sendResultSuccess c (messageId msg) (JObj []) False w1))
      | getLogConfig \<Rightarrow>
          (None, sendResultSuccess c (messageId msg)
                   (JObj [(''config'',
                           dumpLogConfig e (driver_calls w) (schemaVersion (sessions w c)))])
                   False w)
      | NoCommand \<Rightarrow> (Some Unexpected, w)
      | NoInstanceCmd prefix rest \<Rightarrow>
          (case inherited_members e prefix of
             None \<Rightarrow> (Some (Base (UnknownCommandError (command msg))), w)
           | Some member \<Rightarrow> awaited c msg (member msg) (run_microtasks w))
      | _ \<Rightarrow>
          (case instance_of (command msg) of
             Some i \<Rightarrow>
               (case instanceHandlers e i msg c w of
                  (r, w1) \<Rightarrow> awaited c msg r (run_microtasks w1))
           | None \<Rightarrow> (Some (Base (UnknownCommandError (command msg))), w)))"

text \<open>The \<^verbatim>\<open>catch\<close> of the second \<^verbatim>\<open>try\<close>.\<close>

fun catch_block :: "nat \<Rightarrow> incoming \<Rightarrow> thrown \<Rightarrow> server \<Rightarrow> server" where
  "catch_block c msg (Base err) w = sendResultError c (messageId msg) (errorCode err) (Some err) w"
| "catch_block c msg (ZWaveError code message) w =
     sendResultZWaveError c (messageId msg) code message w"
| "catch_block c msg Unexpected w = sendResultError c (messageId msg) unknownError None w"

text \<open>
  On \<^verbatim>\<open>null\<close> the \<^verbatim>\<open>try\<close> throws when it reads \<^verbatim>\<open>msg.command\<close>, and the
  \<^verbatim>\<open>catch\<close> throws again when it reads \<^verbatim>\<open>msg.messageId\<close>: nothing is sent, nothing
  is closed, and the error leaves \<^verbatim>\<open>receiveMessage\<close>.
\<close>

definition receiveMessage :: "env \<Rightarrow> nat \<Rightarrow> string \<Rightarrow> server \<Rightarrow> server" where
  "receiveMessage e c data w =
     (case JSON_parse e data of
        None \<Rightarrow> update_client c socket_close w
      | Some ParsedNull \<Rightarrow> w
      | Some (Parsed msg) \<Rightarrow>
          (case try_block e c msg w of
             (None, w1) \<Rightarrow> w1
           | (Some err, w1) \<Rightarrow> catch_block c msg err w1))"

section \<open>The registry: \<^verbatim>\<open>class ClientsController\<close>\<close>

text \<open>The body of the function given to \<^verbatim>\<open>setInterval\<close>: its loop, then the assignment.\<close>

fun pingInterval_loop :: "nat list \<Rightarrow> nat list \<Rightarrow> server \<Rightarrow> nat list \<times> server" where
  "pingInterval_loop [] newClients w = (newClients, w)"
| "pingInterval_loop (client # rest) newClients w =
     (if isConnected (sessions w client)
      then pingInterval_loop rest (newClients @ [client]) w
      else pingInterval_loop rest newClients (disconnect client w))"

definition pingInterval_callback :: "server \<Rightarrow> server" where
  "pingInterval_callback w =
     (case pingInterval_loop (clients w) [] w of
        (newClients, w') \<Rightarrow> w'\<lparr>clients := newClients\<rparr>)"

text \<open>
  \<^verbatim>\<open>addSocket\<close>: the new \<^verbatim>\<open>Client\<close> lives at the identity \<open>c\<close> of its socket. The two
  flags say that the interval timer and the event forwarder exist.
\<close>

definition addSocket :: "env \<Rightarrow> nat \<Rightarrow> server \<Rightarrow> server" where
  "addSocket e c w =
     (let w1 = w\<lparr>sessions := (sessions w)(c := new_Client e)\<rparr>;
          w2 = sendVersion e c w1;
          w3 = w2\<lparr>clients := clients w2 @ [c]\<rparr>
      in w3\<lparr>pingInterval := True, eventForwarder := True\<rparr>)"

text \<open>
  Modelled from the spec: the event forwarder (\<^verbatim>\<open>./forward\<close>) is not among the
  sources. The spec has it push each event of the controller to every session with
  \<^verbatim>\<open>receiveEvents\<close> set that is currently connected; the log transport of
  \<^verbatim>\<open>logging.ts\<close> does the same with \<^verbatim>\<open>receiveLogs\<close>.
\<close>

fun forward_to :: "nat list \<Rightarrow> OutgoingEvent \<Rightarrow> server \<Rightarrow> server" where
  "forward_to [] event w = w"
| "forward_to (c # cs) event w =
     forward_to cs event
       (if receiveEvents (sessions w c) \<and> isConnected (sessions w c)
        then sendEvent c event w else w)"

definition forwardEvent :: "OutgoingEvent \<Rightarrow> server \<Rightarrow> server" where
  "forwardEvent event w = forward_to (clients w) event w"

text \<open>A server that no client has connected to yet.\<close>

definition new_server :: "server" where
  "new_server =
     \<lparr>sessions = (\<lambda>c. \<lparr>receiveEvents = False, outstandingPing = False, schemaVersion = 0,
                        receiveLogs = False, socket_readyState = CLOSED, timeline = []\<rparr>),
      clients = [], pingInterval = False, eventForwarder = False,
      grantSecurityClassesPromise = None, validateDSKAndEnterPinPromise = None,
      promises = [], microtasks = [], driver_calls = []\<rparr>"

section \<open>Conditions the properties rest on\<close>

text \<open>
  What the handlers of the other namespaces are taken to respect: they make no call on
  the socket of the session they serve, and, whichever session they serve, they leave the
  flag \<^verbatim>\<open>receiveEvents\<close> of a session alone.
\<close>

definition handlers_leave_socket :: "env \<Rightarrow> nat \<Rightarrow> bool" where
  "handlers_leave_socket e c =
     (\<forall>i message w.
        socket_calls (sessions (snd (otherHandlers e i message c w)) c) = socket_calls (sessions w c)
        \<and> socket_readyState (sessions (snd (otherHandlers e i message c w)) c)
            = socket_readyState (sessions w c))"

definition handlers_leave_flag :: "env \<Rightarrow> nat \<Rightarrow> bool" where
  "handlers_leave_flag e c =
     (\<forall>i message client w.
        receiveEvents (sessions (snd (otherHandlers e i message client w)) c)
          = receiveEvents (sessions w c))"

text \<open>
  The promises that the callbacks of one operation remember are promises of the heap, each
  with the \<^verbatim>\<open>finally\<close> handler of the callback that created it.
\<close>

definition callbacks_known :: "UserCallbacks \<Rightarrow> server \<Rightarrow> bool" where
  "callbacks_known cbs w =
     ((case local_grantSecurityClassesPromise cbs of
         None \<Rightarrow> True
       | Some p \<Rightarrow> p < length (promises w) \<and> on_finally (promises w ! p) = GrantSecurityClasses)
      \<and> (case local_validateDSKAndEnterPinPromise cbs of
            None \<Rightarrow> True
          | Some p \<Rightarrow> p < length (promises w) \<and> on_finally (promises w ! p) = ValidateDSKAndEnterPin))"

text \<open>
  The promise, if any, that an abort of the operation rejects: one the callbacks remember
  and that is still pending.
\<close>

definition remembered :: "UserCallbacks \<Rightarrow> promise \<Rightarrow> bool" where
  "remembered cbs p =
     (local_grantSecurityClassesPromise cbs = Some p
      \<or> local_validateDSKAndEnterPinPromise cbs = Some p)"

text \<open>
  The call on the driver that each branch of the handler of the \<^verbatim>\<open>controller\<close>
  namespace makes; the two branches that answer a prompt make none.
\<close>

fun driver_call_of :: "ControllerCommand \<Rightarrow> nat \<Rightarrow> incoming \<Rightarrow> driver_call option" where
  "driver_call_of beginInclusion client message =
     Some (BeginInclusion (processInclusionOptions client message))"
| "driver_call_of grantSecurityClasses client message = None"
| "driver_call_of validateDSKAndEnterPIN client message = None"
| "driver_call_of stopInclusion client message = Some StopInclusion"
| "driver_call_of beginExclusion client message = Some BeginExclusion"
| "driver_call_of stopExclusion client message = Some StopExclusion"
| "driver_call_of removeFailedNode client message = Some (RemoveFailedNode (nodeId message))"
| "driver_call_of replaceFailedNode client message =
     Some (ReplaceFailedNode (nodeId message) (processInclusionOptions client message))"
| "driver_call_of healNode client message = Some (HealNode (nodeId message))"
| "driver_call_of beginHealingNetwork client message = Some BeginHealingNetwork"
| "driver_call_of stopHealingNetwork client message = Some StopHealingNetwork"
| "driver_call_of isFailedNode client message = Some (IsFailedNode (nodeId message))"
| "driver_call_of getAssociationGroups client message =
     Some (GetAssociationGroups (nodeId message) (endpoint_index message))"
| "driver_call_of getAssociations client message =
     Some (GetAssociations (nodeId message) (endpoint_index message))"
| "driver_call_of isAssociationAllowed client message =
     Some (IsAssociationAllowed (nodeId message) (endpoint_index message)
             (group message) (association message))"
| "driver_call_of addAssociations client message =
     Some (AddAssociations (nodeId message) (endpoint_index message)
             (group message) (associations message))"
| "driver_call_of removeAssociations client message =
     Some (RemoveAssociations (nodeId message) (endpoint_index message)
             (group message) (associations message))"
| "driver_call_of removeNodeFromAllAssocations client message =
     Some (RemoveNodeFromAllAssociations (nodeId message))"
| "driver_call_of removeNodeFromAllAssociations client message =
     Some (RemoveNodeFromAllAssociations (nodeId message))"
| "driver_call_of getNodeNeighbors client message = Some (GetNodeNeighbors (nodeId message))"

text \<open>The failure result that answers what was thrown.\<close>

fun failure_result :: "json option \<Rightarrow> thrown \<Rightarrow> OutgoingMessage" where
  "failure_result mid (Base err) = ResultError mid (errorCode err) (Some err)"
| "failure_result mid (ZWaveError code message) = ResultZWaveError mid code message"
| "failure_result mid Unexpected = ResultError mid unknownError None"

text \<open>
  A frame is answered with a failure: the session sends exactly the failure result for
  what was thrown, uncompressed, and the state of its socket stays as it was.
\<close>

definition failure_sent :: "env \<Rightarrow> nat \<Rightarrow> string \<Rightarrow> server \<Rightarrow> incoming \<Rightarrow> thrown \<Rightarrow> bool" where
  "failure_sent e c data w msg err =
     (socket_calls (sessions (receiveMessage e c data w) c) =
        socket_calls (sessions w c) @ [Send (failure_result (messageId msg) err) False]
      \<and> socket_readyState (sessions (receiveMessage e c data w) c)
          = socket_readyState (sessions w c))"

section \<open>Concrete inputs\<close>

text \<open>A message that carries a command and a message id and nothing else.\<close>

definition blank_message :: "command \<Rightarrow> string \<Rightarrow> incoming" where
  "blank_message cmd mid =
     \<lparr>command = cmd, messageId = Some (JStr mid), msg_schemaVersion = 0, config = JNull,
      nodeId = 0, endpoint_index = JNull, group = JNull, association = JNull,
      associations = JNull, options = None, includeNonSecure = None, inclusionGrant = JNull,
      pin = JNull\<rparr>"

text \<open>What the frame \<^verbatim>\<open>42\<close> parses to: a value without any member.\<close>

definition not_a_message :: incoming where
  "not_a_message = (blank_message NoCommand [])\<lparr>messageId := None\<rparr>"

text \<open>
  Two \<^verbatim>\<open>controller.begin_inclusion\<close> commands and a
  \<^verbatim>\<open>controller.replace_failed_node\<close> command for node 5, each with an \<^verbatim>\<open>options\<close>
  object that asks for the default strategy, and two answers to the question which
  security classes to grant.
\<close>

definition interactive_begin :: incoming where
  "interactive_begin =
     (blank_message (ControllerCmd beginInclusion) ''g'')
       \<lparr>options := Some \<lparr>strategy = Default, userCallbacks = None, other_options = JObj []\<rparr>\<rparr>"

definition interactive_begin_again :: incoming where
  "interactive_begin_again = interactive_begin\<lparr>messageId := Some (JStr ''h'')\<rparr>"

definition interactive_replace :: incoming where
  "interactive_replace =
     (blank_message (ControllerCmd replaceFailedNode) ''i'')
       \<lparr>nodeId := 5,
        options := Some \<lparr>strategy = Default, userCallbacks = None, other_options = JObj []\<rparr>\<rparr>"

definition grant_answer :: incoming where
  "grant_answer =
     (blank_message (ControllerCmd grantSecurityClasses) ''j'')\<lparr>inclusionGrant := JArr [JNum 7]\<rparr>"

definition grant_answer_again :: incoming where
  "grant_answer_again =
     (blank_message (ControllerCmd grantSecurityClasses) ''k'')\<lparr>inclusionGrant := JArr [JNum 1]\<rparr>"

text \<open>
  An environment with schema versions 0 to 8, a state dump that shows the schema version
  it was made for, a driver that answers every call with \<open>true\<close>, the inherited member
  \<^verbatim>\<open>toString\<close>, and a parser that knows a handful of frames.
\<close>

definition example_parse :: "string \<Rightarrow> parsed option" where
  "example_parse data =
     (if data = ''null'' then Some ParsedNull
      else if data = ''42'' then Some (Parsed not_a_message)
      else if data = ''{command: set_api_schema, messageId: a, schemaVersion: 99}''
      then Some (Parsed ((blank_message setApiSchema ''a'')\<lparr>msg_schemaVersion := 99\<rparr>))
      else if data = ''{command: set_api_schema, messageId: b, schemaVersion: 5}''
      then Some (Parsed ((blank_message setApiSchema ''b'')\<lparr>msg_schemaVersion := 5\<rparr>))
      else if data = ''{command: start_listening, messageId: c}''
      then Some (Parsed (blank_message startListening ''c''))
      else if data = ''{command: get_log_config, messageId: d}''
      then Some (Parsed (blank_message getLogConfig ''d''))
      else if data = ''{command: nonsense, messageId: e}''
      then Some (Parsed (blank_message (NoInstanceCmd ''nonsense'' []) ''e''))
      else if data = ''{command: controller.stop_inclusion, messageId: f}''
      then Some (Parsed (blank_message (ControllerCmd stopInclusion) ''f''))
      else if data = ''{command: controller.begin_inclusion, messageId: g, options: {strategy: 0}}''
      then Some (Parsed interactive_begin)
      else if data = ''{command: controller.begin_inclusion, messageId: h, options: {strategy: 0}}''
      then Some (Parsed interactive_begin_again)
      else if data = ''{command: toString, messageId: l}''
      then Some (Parsed (blank_message (NoInstanceCmd ''toString'' []) ''l''))
      else None)"

definition example_env :: env where
  "example_env =
     \<lparr>minSchemaVersion = 0, maxSchemaVersion = 8,
      libVersion = JStr ''8.0.1'', version = JStr ''1.9.0'', homeId = JNum 1,
      dumpState = (\<lambda>calls v. JObj [(''schemaVersion'', JNum v)]),
      dumpLogConfig = (\<lambda>calls v. JObj [(''schemaVersion'', JNum v)]),
      JSON_parse = example_parse,
      driver_answer = (\<lambda>calls dc. Inr (JBool True)),
      otherHandlers = (\<lambda>i message client w. (Inl Unexpected, w)),
      inherited_members =
        (\<lambda>name. if name = ''toString'' then Some (\<lambda>message. Inr (JStr ''[object Object]''))
                 else None)\<rparr>"

text \<open>The same environment with a driver that fails every call with a Z-Wave error.\<close>

definition failing_env :: env where
  "failing_env =
     example_env\<lparr>driver_answer := (\<lambda>calls dc. Inl (ZWaveError (JNum 202) ''node not found''))\<rparr>"

text \<open>A server with one session, 0, that has just connected.\<close>

definition one_client :: server where
  "one_client = addSocket example_env 0 new_server"

text \<open>The variables of the callbacks of an operation that session \<open>c\<close> has just started.\<close>

definition fresh_callbacks :: "nat \<Rightarrow> UserCallbacks" where
  "fresh_callbacks c =
     \<lparr>cb_client = c, local_grantSecurityClassesPromise = None,
      local_validateDSKAndEnterPinPromise = None\<rparr>"

text \<open>The server after session 0 has started an inclusion, operation A.\<close>

definition started :: server where
  "started =
     receiveMessage example_env 0
       ''{command: controller.begin_inclusion, messageId: g, options: {strategy: 0}}'' one_client"

text \<open>
  The server after the driver has then asked, through the callback of operation A, which
  security classes to grant: promise 0 is pending in the first slot, and the callbacks
  of A remember it.
\<close>

definition prompted :: server where
  "prompted = snd (snd (cb_grantSecurityClasses (fresh_callbacks 0) (JArr []) started))"

definition prompted_callbacks :: UserCallbacks where
  "prompted_callbacks = fst (snd (cb_grantSecurityClasses (fresh_callbacks 0) (JArr []) started))"

text \<open>
  The server after the handler of a first answer has returned and before the
  \<^verbatim>\<open>finally\<close> handler of promise 0 has run.
\<close>

definition answered :: server where
  "answered = snd (handle_controller example_env grantSecurityClasses grant_answer 0 prompted)"

text \<open>
  The server after session 0 has started a second inclusion, operation B, before the
  driver has asked anything, and after the driver has then asked its question for A and
  for B: promise 1, of B, has taken the place of promise 0, of A, in the first slot, and
  both are pending.
\<close>

definition started_twice :: server where
  "started_twice =
     receiveMessage example_env 0
       ''{command: controller.begin_inclusion, messageId: h, options: {strategy: 0}}'' started"

definition prompted_twice :: server where
  "prompted_twice =
     snd (snd (cb_grantSecurityClasses (fresh_callbacks 0) (JArr [])
       (snd (snd (cb_grantSecurityClasses (fresh_callbacks 0) (JArr []) started_twice)))))"

section \<open>Properties\<close>

lemma calls_of_append: "calls_of (xs @ ys) = calls_of xs @ calls_of ys"
  by (induction xs rule: calls_of.induct) simp_all

lemmas send_defs =
  sendData_def sendResultSuccess_def sendResultError_def sendResultZWaveError_def
  sendEvent_def sendVersion_def update_client_def socket_send_def socket_calls_def
  calls_of_append set_receiveEvents_def set_schemaVersion_def set_outstandingPing_def

subsection \<open>Settling a promise\<close>

lemma settle_not_pending: "\<not> is_pending w p \<Longrightarrow> settle p outcome w = w"
  by (auto simp: settle_def is_pending_def)

lemma promises_settle:
  "is_pending w p \<Longrightarrow>
   promises (settle p outcome w) = (promises w)[p := (promises w ! p)\<lparr>promise_state := outcome\<rparr>]"
  by (simp add: settle_def is_pending_def)

lemma length_promises_settle: "length (promises (settle p outcome w)) = length (promises w)"
  by (simp add: settle_def)

lemma on_finally_settle:
  "on_finally (promises (settle p outcome w) ! q) = on_finally (promises w ! q)"
  by (cases "p = q") (simp_all add: settle_def)

lemma map_on_finally_settle:
  "map on_finally (promises (settle p outcome w)) = map on_finally (promises w)"
  by (simp add: list_eq_iff_nth_eq length_promises_settle on_finally_settle)

lemma promise_state_settle:
  "promise_state (promises (settle p outcome w) ! q) =
     (if q = p \<and> is_pending w p then outcome else promise_state (promises w ! q))"
  by (simp add: settle_def is_pending_def)

lemma microtasks_settle:
  "microtasks (settle p outcome w) = (if is_pending w p then microtasks w @ [p] else microtasks w)"
  by (simp add: settle_def is_pending_def)

lemma settle_keeps:
  "sessions (settle p outcome w) = sessions w"
  "clients (settle p outcome w) = clients w"
  "driver_calls (settle p outcome w) = driver_calls w"
  "grantSecurityClassesPromise (settle p outcome w) = grantSecurityClassesPromise w"
  "validateDSKAndEnterPinPromise (settle p outcome w) = validateDSKAndEnterPinPromise w"
  by (simp_all add: settle_def)

lemma is_pending_settle:
  "is_pending (settle p outcome w) q =
     (if q = p \<and> is_pending w p then outcome = Pending else is_pending w q)"
  by (auto simp: is_pending_def length_promises_settle promise_state_settle)

subsection \<open>The queued handlers\<close>

lemma run_reaction_keeps:
  "promises (run_reaction p w) = promises w"
  "sessions (run_reaction p w) = sessions w"
  "clients (run_reaction p w) = clients w"
  "driver_calls (run_reaction p w) = driver_calls w"
  "microtasks (run_reaction p w) = microtasks w"
  by (simp_all add: run_reaction_def finally_handler_def split: channel.splits)

lemma grant_slot_run_reaction:
  "grantSecurityClassesPromise (run_reaction p w) =
     (if p < length (promises w) \<and> on_finally (promises w ! p) = GrantSecurityClasses
         \<and> grantSecurityClassesPromise w = Some p
      then None else grantSecurityClassesPromise w)"
  by (simp add: run_reaction_def finally_handler_def split: channel.splits)

lemma dsk_slot_run_reaction:
  "validateDSKAndEnterPinPromise (run_reaction p w) =
     (if p < length (promises w) \<and> on_finally (promises w ! p) = ValidateDSKAndEnterPin
         \<and> validateDSKAndEnterPinPromise w = Some p
      then None else validateDSKAndEnterPinPromise w)"
  by (simp add: run_reaction_def finally_handler_def split: channel.splits)

lemma fold_run_reaction_keeps:
  "promises (fold run_reaction ps w) = promises w"
  "sessions (fold run_reaction ps w) = sessions w"
  "clients (fold run_reaction ps w) = clients w"
  "driver_calls (fold run_reaction ps w) = driver_calls w"
  "microtasks (fold run_reaction ps w) = microtasks w"
  by (induction ps arbitrary: w) (simp_all add: run_reaction_keeps)

lemma run_microtasks_keeps:
  "promises (run_microtasks w) = promises w"
  "sessions (run_microtasks w) = sessions w"
  "clients (run_microtasks w) = clients w"
  "driver_calls (run_microtasks w) = driver_calls w"
  "microtasks (run_microtasks w) = []"
  by (simp_all add: run_microtasks_def fold_run_reaction_keeps)

lemma run_microtasks_idle: "microtasks w = [] \<Longrightarrow> run_microtasks w = w"
  by (simp add: run_microtasks_def)

text \<open>A queued handler looks at the slots and at which handler a promise carries, at nothing else.\<close>

lemma run_reaction_promises_update:
  "map on_finally P = map on_finally (promises w) \<Longrightarrow>
   run_reaction p (w\<lparr>promises := P\<rparr>) = (run_reaction p w)\<lparr>promises := P\<rparr>"
proof -
  assume h: "map on_finally P = map on_finally (promises w)"
  then have l: "length P = length (promises w)"
    by (metis length_map)
  have "p < length P \<Longrightarrow> on_finally (P ! p) = on_finally (promises w ! p)"
    using h l by (metis nth_map)
  with l show ?thesis
    by (auto simp: run_reaction_def finally_handler_def split: channel.splits)
qed

lemma fold_run_reaction_promises_update:
  "map on_finally P = map on_finally (promises w) \<Longrightarrow>
   fold run_reaction ps (w\<lparr>promises := P\<rparr>) = (fold run_reaction ps w)\<lparr>promises := P\<rparr>"
proof (induction ps arbitrary: w)
  case Nil
  then show ?case by simp
next
  case (Cons p ps)
  have "map on_finally P = map on_finally (promises (run_reaction p w))"
    using Cons.prems by (simp add: run_reaction_keeps)
  from Cons.IH [OF this] Cons.prems show ?case
    by (simp add: run_reaction_promises_update)
qed

lemma run_reaction_sessions_update:
  "run_reaction p (w\<lparr>sessions := S\<rparr>) = (run_reaction p w)\<lparr>sessions := S\<rparr>"
  by (simp add: run_reaction_def finally_handler_def split: channel.splits)

lemma fold_run_reaction_sessions_update:
  "fold run_reaction ps (w\<lparr>sessions := S\<rparr>) = (fold run_reaction ps w)\<lparr>sessions := S\<rparr>"
  by (induction ps arbitrary: w) (simp_all add: run_reaction_sessions_update)

lemma run_microtasks_sessions_update:
  "run_microtasks (w\<lparr>sessions := S\<rparr>) = (run_microtasks w)\<lparr>sessions := S\<rparr>"
proof -
  have a: "microtasks (w\<lparr>sessions := S\<rparr>) = microtasks w"
    and b: "(w\<lparr>sessions := S\<rparr>)\<lparr>microtasks := []\<rparr> = (w\<lparr>microtasks := []\<rparr>)\<lparr>sessions := S\<rparr>"
    by simp_all
  show ?thesis
    unfolding run_microtasks_def a b
    by (rule fold_run_reaction_sessions_update)
qed

lemma run_microtasks_settle:
  "is_pending w p \<Longrightarrow>
   run_microtasks (settle p outcome w) =
     run_reaction p ((run_microtasks w)\<lparr>promises := promises (settle p outcome w)\<rparr>)"
proof -
  assume h: "is_pending w p"
  let ?P = "promises (settle p outcome w)"
  have m: "map on_finally ?P = map on_finally (promises (w\<lparr>microtasks := []\<rparr>))"
    by (simp add: map_on_finally_settle)
  have a: "microtasks (settle p outcome w) = microtasks w @ [p]"
    using h by (simp add: microtasks_settle)
  have b: "(settle p outcome w)\<lparr>microtasks := []\<rparr> = (w\<lparr>microtasks := []\<rparr>)\<lparr>promises := ?P\<rparr>"
    using h by (simp add: settle_def is_pending_def)
  have "run_microtasks (settle p outcome w) =
      fold run_reaction (microtasks w @ [p]) ((w\<lparr>microtasks := []\<rparr>)\<lparr>promises := ?P\<rparr>)"
    unfolding run_microtasks_def a b by (rule refl)
  also have "\<dots> =
      run_reaction p (fold run_reaction (microtasks w) ((w\<lparr>microtasks := []\<rparr>)\<lparr>promises := ?P\<rparr>))"
    by (simp only: fold_append comp_apply fold_simps)
  also have "\<dots> = run_reaction p ((run_microtasks w)\<lparr>promises := ?P\<rparr>)"
    unfolding run_microtasks_def
    by (simp only: fold_run_reaction_promises_update [OF m])
  finally show ?thesis .
qed

lemma grant_slot_settled:
  "is_pending w p \<Longrightarrow>
   grantSecurityClassesPromise (run_microtasks (settle p outcome w)) =
     (if on_finally (promises w ! p) = GrantSecurityClasses
         \<and> grantSecurityClassesPromise (run_microtasks w) = Some p
      then None else grantSecurityClassesPromise (run_microtasks w))"
  by (simp add: run_microtasks_settle grant_slot_run_reaction length_promises_settle
        on_finally_settle is_pending_def)

lemma dsk_slot_settled:
  "is_pending w p \<Longrightarrow>
   validateDSKAndEnterPinPromise (run_microtasks (settle p outcome w)) =
     (if on_finally (promises w ! p) = ValidateDSKAndEnterPin
         \<and> validateDSKAndEnterPinPromise (run_microtasks w) = Some p
      then None else validateDSKAndEnterPinPromise (run_microtasks w))"
  by (simp add: run_microtasks_settle dsk_slot_run_reaction length_promises_settle
        on_finally_settle is_pending_def)

subsection \<open>What a callback of the driver leaves behind\<close>

lemma cb_grantSecurityClasses_creates:
  "cb_grantSecurityClasses cbs requested w = (r, cbs', w') \<Longrightarrow>
   r = Some (length (promises w))
   \<and> grantSecurityClassesPromise w' = Some (length (promises w))
   \<and> validateDSKAndEnterPinPromise w' = validateDSKAndEnterPinPromise w
   \<and> is_pending w' (length (promises w))
   \<and> on_finally (promises w' ! length (promises w)) = GrantSecurityClasses
   \<and> cbs' = cbs\<lparr>local_grantSecurityClassesPromise := Some (length (promises w))\<rparr>
   \<and> socket_calls (sessions w' (cb_client cbs)) =
       socket_calls (sessions w (cb_client cbs)) @
         [Send (EventMessage (OutgoingEvent ''controller'' ''grant security classes''
                  [(''requested'', requested)])) False]"
  by (auto simp: cb_grantSecurityClasses_def createDeferredPromise_def Let_def send_defs
        is_pending_def)

lemma cb_validateDSKAndEnterPIN_creates:
  "cb_validateDSKAndEnterPIN cbs dsk w = (r, cbs', w') \<Longrightarrow>
   r = Some (length (promises w))
   \<and> validateDSKAndEnterPinPromise w' = Some (length (promises w))
   \<and> grantSecurityClassesPromise w' = grantSecurityClassesPromise w
   \<and> is_pending w' (length (promises w))
   \<and> on_finally (promises w' ! length (promises w)) = ValidateDSKAndEnterPin
   \<and> cbs' = cbs\<lparr>local_validateDSKAndEnterPinPromise := Some (length (promises w))\<rparr>
   \<and> socket_calls (sessions w' (cb_client cbs)) =
       socket_calls (sessions w (cb_client cbs)) @
         [Send (EventMessage (OutgoingEvent ''controller'' ''validate dsk and enter pin''
                  [(''dsk'', dsk)])) False]"
  by (auto simp: cb_validateDSKAndEnterPIN_def createDeferredPromise_def Let_def send_defs
        is_pending_def)

subsection \<open>The concrete states\<close>

lemma example_parse_simps:
  "JSON_parse example_env ''garbage'' = None"
  "JSON_parse failing_env ''garbage'' = None"
  "JSON_parse example_env ''{command: set_api_schema, messageId: a, schemaVersion: 99}''
     = Some (Parsed ((blank_message setApiSchema ''a'')\<lparr>msg_schemaVersion := 99\<rparr>))"
  "JSON_parse example_env ''{command: set_api_schema, messageId: b, schemaVersion: 5}''
     = Some (Parsed ((blank_message setApiSchema ''b'')\<lparr>msg_schemaVersion := 5\<rparr>))"
  "JSON_parse example_env ''{command: start_listening, messageId: c}''
     = Some (Parsed (blank_message startListening ''c''))"
  "JSON_parse example_env ''{command: get_log_config, messageId: d}''
     = Some (Parsed (blank_message getLogConfig ''d''))"
  "JSON_parse example_env ''{command: nonsense, messageId: e}''
     = Some (Parsed (blank_message (NoInstanceCmd ''nonsense'' []) ''e''))"
  "JSON_parse failing_env ''{command: controller.stop_inclusion, messageId: f}''
     = Some (Parsed (blank_message (ControllerCmd stopInclusion) ''f''))"
  "JSON_parse example_env
     ''{command: controller.begin_inclusion, messageId: g, options: {strategy: 0}}''
     = Some (Parsed interactive_begin)"
  "JSON_parse example_env
     ''{command: controller.begin_inclusion, messageId: h, options: {strategy: 0}}''
     = Some (Parsed interactive_begin_again)"
  "JSON_parse example_env ''null'' = Some ParsedNull"
  "JSON_parse example_env ''42'' = Some (Parsed not_a_message)"
  "JSON_parse example_env ''{command: toString, messageId: l}''
     = Some (Parsed (blank_message (NoInstanceCmd ''toString'' []) ''l''))"
  by (simp_all add: example_env_def failing_env_def example_parse_def)

lemma example_handlers:
  "handlers_leave_socket example_env c" "handlers_leave_socket failing_env c"
  "handlers_leave_flag example_env c"
  by (simp_all add: handlers_leave_socket_def handlers_leave_flag_def example_env_def
        failing_env_def)

lemma one_client_simps:
  "promises one_client = []" "grantSecurityClassesPromise one_client = None"
  "validateDSKAndEnterPinPromise one_client = None" "driver_calls one_client = []"
  "clients one_client = [0]" "microtasks one_client = []"
  by (simp_all add: one_client_def addSocket_def new_server_def send_defs Let_def)

lemma one_client_session:
  "sessions one_client 0 =
     \<lparr>receiveEvents = False, outstandingPing = False, schemaVersion = 0, receiveLogs = False,
      socket_readyState = OPEN,
      timeline = [Call (Send (VersionMessage (JStr ''8.0.1'') (JStr ''1.9.0'') (JNum 1) 0 8) False)]\<rparr>"
  by (simp add: one_client_def addSocket_def new_Client_def new_server_def send_defs Let_def
        example_env_def)

text \<open>A \<^verbatim>\<open>controller.begin_inclusion\<close> command with idle slots, as one frame.\<close>

lemma receive_begin_inclusion:
  assumes "JSON_parse e data = Some (Parsed msg)"
    and "command msg = ControllerCmd beginInclusion"
    and "grantSecurityClassesPromise w = None" and "validateDSKAndEnterPinPromise w = None"
    and "microtasks w = []"
    and "driver_answer e (driver_calls w) (BeginInclusion (processInclusionOptions c msg)) = Inr v"
  shows "receiveMessage e c data w =
     sendResultSuccess c (messageId msg) (JObj [(''success'', v)]) False
       (w\<lparr>driver_calls := driver_calls w @ [BeginInclusion (processInclusionOptions c msg)]\<rparr>)"
  using assms
  by (simp add: receiveMessage_def try_block_def instanceHandlers_def handle_def returning_def
        call_driver_def awaited_def field_def run_microtasks_idle)

lemma started_eq:
  "started =
     sendResultSuccess 0 (Some (JStr ''g'')) (JObj [(''success'', JBool True)]) False
       (one_client\<lparr>driver_calls :=
          [BeginInclusion \<lparr>strategy = Default, userCallbacks = Some (fresh_callbacks 0),
                           other_options = JObj []\<rparr>]\<rparr>)"
proof -
  have c: "command interactive_begin = ControllerCmd beginInclusion"
    and i: "messageId interactive_begin = Some (JStr ''g'')"
    and o: "processInclusionOptions 0 interactive_begin =
              \<lparr>strategy = Default, userCallbacks = Some (fresh_callbacks 0), other_options = JObj []\<rparr>"
    by (simp_all add: interactive_begin_def blank_message_def processInclusionOptions_def
          fresh_callbacks_def)
  have a: "driver_answer example_env (driver_calls one_client)
             (BeginInclusion (processInclusionOptions 0 interactive_begin)) = Inr (JBool True)"
    by (simp add: example_env_def)
  from receive_begin_inclusion [OF example_parse_simps(9) c one_client_simps(2,3,6) a]
  show ?thesis
    by (simp add: started_def i o one_client_simps)
qed

lemma started_simps:
  "promises started = []" "grantSecurityClassesPromise started = None"
  "validateDSKAndEnterPinPromise started = None" "microtasks started = []"
  "driver_calls started =
     [BeginInclusion \<lparr>strategy = Default, userCallbacks = Some (fresh_callbacks 0),
                      other_options = JObj []\<rparr>]"
  "clients started = [0]"
  by (simp_all add: started_eq one_client_simps sendResultSuccess_def sendData_def
        update_client_def)


lemma prompted_simps:
  "promises prompted = [\<lparr>promise_state = Pending, on_finally = GrantSecurityClasses\<rparr>]"
  "grantSecurityClassesPromise prompted = Some 0"
  "validateDSKAndEnterPinPromise prompted = None"
  "microtasks prompted = []"
  "driver_calls prompted = driver_calls started"
  "prompted_callbacks = \<lparr>cb_client = 0, local_grantSecurityClassesPromise = Some 0,
      local_validateDSKAndEnterPinPromise = None\<rparr>"
  by (simp_all add: prompted_def prompted_callbacks_def cb_grantSecurityClasses_def
        createDeferredPromise_def fresh_callbacks_def started_simps(1-4) send_defs Let_def)


lemma answered_simps:
  "promises answered =
     [\<lparr>promise_state = Resolved (JArr [JNum 7]), on_finally = GrantSecurityClasses\<rparr>]"
  "grantSecurityClassesPromise answered = Some 0"
  "validateDSKAndEnterPinPromise answered = None"
  "microtasks answered = [0]"
  by (simp_all add: answered_def resolve_def settle_def prompted_simps(1-4) grant_answer_def
        blank_message_def)

lemma started_twice_eq:
  "started_twice =
     sendResultSuccess 0 (Some (JStr ''h'')) (JObj [(''success'', JBool True)]) False
       (started\<lparr>driver_calls := driver_calls started @
          [BeginInclusion \<lparr>strategy = Default, userCallbacks = Some (fresh_callbacks 0),
                           other_options = JObj []\<rparr>]\<rparr>)"
proof -
  have c: "command interactive_begin_again = ControllerCmd beginInclusion"
    and i: "messageId interactive_begin_again = Some (JStr ''h'')"
    and o: "processInclusionOptions 0 interactive_begin_again =
              \<lparr>strategy = Default, userCallbacks = Some (fresh_callbacks 0), other_options = JObj []\<rparr>"
    by (simp_all add: interactive_begin_again_def interactive_begin_def blank_message_def
          processInclusionOptions_def fresh_callbacks_def)
  have a: "driver_answer example_env (driver_calls started)
             (BeginInclusion (processInclusionOptions 0 interactive_begin_again)) = Inr (JBool True)"
    by (simp add: example_env_def)
  from receive_begin_inclusion [OF example_parse_simps(10) c started_simps(2,3,4) a]
  show ?thesis
    by (simp add: started_twice_def i o)
qed

lemma started_twice_simps:
  "promises started_twice = []" "grantSecurityClassesPromise started_twice = None"
  "validateDSKAndEnterPinPromise started_twice = None" "microtasks started_twice = []"
  by (simp_all add: started_twice_eq started_simps sendResultSuccess_def sendData_def
        update_client_def)

lemma prompted_twice_simps:
  "promises prompted_twice = [\<lparr>promise_state = Pending, on_finally = GrantSecurityClasses\<rparr>,
                              \<lparr>promise_state = Pending, on_finally = GrantSecurityClasses\<rparr>]"
  "grantSecurityClassesPromise prompted_twice = Some 1"
  "validateDSKAndEnterPinPromise prompted_twice = None"
  "microtasks prompted_twice = []"
  by (simp_all add: prompted_twice_def cb_grantSecurityClasses_def createDeferredPromise_def
        fresh_callbacks_def started_twice_simps send_defs Let_def)

subsection \<open>Inclusion options of the commands without an \<^verbatim>\<open>options\<close> object\<close>

text \<open>
  C10. A \<^verbatim>\<open>begin_inclusion\<close> or \<^verbatim>\<open>replace_failed_node\<close> command that carries no
  \<^verbatim>\<open>options\<close> object is given the strategy \<open>Insecure\<close> when its flag
  \<^verbatim>\<open>includeNonSecure\<close> is present and true, and the strategy \<open>Security_S0\<close> when the
  flag is absent or false; no callbacks are attached, and these are the options the
  controller is called with.
\<close>

theorem legacy_inclusion_strategy:
  "options message = None \<Longrightarrow>
     processInclusionOptions client message =
       \<lparr>strategy = (if includeNonSecure message = Some True then Insecure else Security_S0),
        userCallbacks = None, other_options = JObj []\<rparr>
   \<and> driver_calls (snd (handle_controller e replaceFailedNode message client w)) =
       driver_calls w @
         [ReplaceFailedNode (nodeId message)
            \<lparr>strategy = (if includeNonSecure message = Some True then Insecure else Security_S0),
             userCallbacks = None, other_options = JObj []\<rparr>]
   \<and> (grantSecurityClassesPromise w = None \<and> validateDSKAndEnterPinPromise w = None \<longrightarrow>
        driver_calls (snd (handle_controller e beginInclusion message client w)) =
          driver_calls w @
            [BeginInclusion
               \<lparr>strategy = (if includeNonSecure message = Some True then Insecure else Security_S0),
                userCallbacks = None, other_options = JObj []\<rparr>])"
  by (auto simp: processInclusionOptions_def returning_def call_driver_def split: sum.splits)

theorem legacy_inclusion_strategy_witness:
  "options ((blank_message (ControllerCmd beginInclusion) ''m'')\<lparr>includeNonSecure := Some True\<rparr>) = None
   \<and> processInclusionOptions 0
        ((blank_message (ControllerCmd beginInclusion) ''m'')\<lparr>includeNonSecure := Some True\<rparr>)
     = \<lparr>strategy = Insecure, userCallbacks = None, other_options = JObj []\<rparr>
   \<and> processInclusionOptions 0 (blank_message (ControllerCmd replaceFailedNode) ''m'')
     = \<lparr>strategy = Security_S0, userCallbacks = None, other_options = JObj []\<rparr>
   \<and> driver_calls (snd (handle_controller example_env beginInclusion
                           (blank_message (ControllerCmd beginInclusion) ''m'') 0 new_server))
     = [BeginInclusion \<lparr>strategy = Security_S0, userCallbacks = None, other_options = JObj []\<rparr>]"
proof -
  let ?m1 = "(blank_message (ControllerCmd beginInclusion) ''m'')\<lparr>includeNonSecure := Some True\<rparr>"
  let ?m2 = "blank_message (ControllerCmd replaceFailedNode) ''m''"
  let ?m3 = "blank_message (ControllerCmd beginInclusion) ''m''"
  have h1: "options ?m1 = None" and h2: "options ?m2 = None" and h3: "options ?m3 = None"
    by (simp_all add: blank_message_def)
  have f1: "includeNonSecure ?m1 = Some True" and f2: "includeNonSecure ?m2 = None"
    and f3: "includeNonSecure ?m3 = None"
    by (simp_all add: blank_message_def)
  have idle: "grantSecurityClassesPromise new_server = None \<and> validateDSKAndEnterPinPromise new_server = None"
    and calls: "driver_calls new_server = []"
    by (simp_all add: new_server_def)
  from legacy_inclusion_strategy [OF h1, of 0] f1
  have a: "processInclusionOptions 0 ?m1 = \<lparr>strategy = Insecure, userCallbacks = None, other_options = JObj []\<rparr>"
    by simp
  from legacy_inclusion_strategy [OF h2, of 0] f2
  have b: "processInclusionOptions 0 ?m2 = \<lparr>strategy = Security_S0, userCallbacks = None, other_options = JObj []\<rparr>"
    by simp
  from legacy_inclusion_strategy [OF h3, of 0 example_env new_server] f3 idle calls
  have c: "driver_calls (snd (handle_controller example_env beginInclusion ?m3 0 new_server))
     = [BeginInclusion \<lparr>strategy = Security_S0, userCallbacks = None, other_options = JObj []\<rparr>]"
    by (simp del: handle_controller.simps)
  from h1 a b c show ?thesis by blast
qed

subsection \<open>A settled promise and its slot\<close>

text \<open>
  C7. Once a pending deferred promise is settled, by \<^verbatim>\<open>resolve\<close> (the answer of a
  client) or by \<^verbatim>\<open>reject\<close> (an abort), whatever the outcome, and the queued
  \<^verbatim>\<open>finally\<close> handlers have run, the slot of its channel does not hold it: a slot
  that would hold this promise is empty, a slot that holds another (newer) promise keeps
  it, and the slot of the other channel is as it would be without the settling.
\<close>

theorem settled_promise_frees_its_slot:
  "is_pending w p \<Longrightarrow>
   (on_finally (promises w ! p) = GrantSecurityClasses \<longrightarrow>
      grantSecurityClassesPromise (run_microtasks (resolve p v w)) =
        (if grantSecurityClassesPromise (run_microtasks w) = Some p then None
         else grantSecurityClassesPromise (run_microtasks w))
      \<and> grantSecurityClassesPromise (run_microtasks (reject p reason w)) =
        (if grantSecurityClassesPromise (run_microtasks w) = Some p then None
         else grantSecurityClassesPromise (run_microtasks w))
      \<and> validateDSKAndEnterPinPromise (run_microtasks (resolve p v w))
          = validateDSKAndEnterPinPromise (run_microtasks w)
      \<and> validateDSKAndEnterPinPromise (run_microtasks (reject p reason w))
          = validateDSKAndEnterPinPromise (run_microtasks w))
   \<and> (on_finally (promises w ! p) = ValidateDSKAndEnterPin \<longrightarrow>
      validateDSKAndEnterPinPromise (run_microtasks (resolve p v w)) =
        (if validateDSKAndEnterPinPromise (run_microtasks w) = Some p then None
         else validateDSKAndEnterPinPromise (run_microtasks w))
      \<and> validateDSKAndEnterPinPromise (run_microtasks (reject p reason w)) =
        (if validateDSKAndEnterPinPromise (run_microtasks w) = Some p then None
         else validateDSKAndEnterPinPromise (run_microtasks w))
      \<and> grantSecurityClassesPromise (run_microtasks (resolve p v w))
          = grantSecurityClassesPromise (run_microtasks w)
      \<and> grantSecurityClassesPromise (run_microtasks (reject p reason w))
          = grantSecurityClassesPromise (run_microtasks w))
   \<and> promise_state (promises (resolve p v w) ! p) = Resolved v
   \<and> promise_state (promises (reject p reason w) ! p) = Rejected reason"
  by (simp add: resolve_def reject_def grant_slot_settled dsk_slot_settled promise_state_settle)

theorem settled_promise_frees_its_slot_witness:
  "is_pending prompted 0
   \<and> grantSecurityClassesPromise prompted = Some 0
   \<and> grantSecurityClassesPromise (run_microtasks (resolve 0 (JBool False) prompted)) = None
   \<and> grantSecurityClassesPromise (run_microtasks (reject 0 ''aborted'' prompted)) = None
   \<and> is_pending prompted_twice 0
   \<and> grantSecurityClassesPromise prompted_twice = Some 1
   \<and> grantSecurityClassesPromise (run_microtasks (reject 0 ''aborted'' prompted_twice)) = Some 1"
proof -
  have p1: "is_pending prompted 0" and p2: "is_pending prompted_twice 0"
    by (simp_all add: is_pending_def prompted_simps prompted_twice_simps)
  have k1: "on_finally (promises prompted ! 0) = GrantSecurityClasses"
    and k2: "on_finally (promises prompted_twice ! 0) = GrantSecurityClasses"
    by (simp_all add: prompted_simps prompted_twice_simps)
  have q1: "run_microtasks prompted = prompted"
    and q2: "run_microtasks prompted_twice = prompted_twice"
    by (simp_all add: run_microtasks_idle prompted_simps prompted_twice_simps)
  from settled_promise_frees_its_slot [OF p1, of "JBool False" "''aborted''"] k1
  have a: "grantSecurityClassesPromise (run_microtasks (resolve 0 (JBool False) prompted)) = None"
    and b: "grantSecurityClassesPromise (run_microtasks (reject 0 ''aborted'' prompted)) = None"
    by (simp_all add: q1 prompted_simps)
  from settled_promise_frees_its_slot [OF p2, of "JBool False" "''aborted''"] k2
  have c: "grantSecurityClassesPromise (run_microtasks (reject 0 ''aborted'' prompted_twice)) = Some 1"
    by (simp add: q2 prompted_twice_simps)
  from p1 p2 a b c show ?thesis by (simp add: prompted_simps prompted_twice_simps)
qed

subsection \<open>Answers of a client to a prompt\<close>

lemma answer_on_empty_slot:
  "grantSecurityClassesPromise w = None \<Longrightarrow>
     handle_controller e grantSecurityClasses message client w =
       (Inl (Base (InclusionPhaseNotInProgressError ''grantSecurityClassesPromise'')), w)"
  "validateDSKAndEnterPinPromise w = None \<Longrightarrow>
     handle_controller e validateDSKAndEnterPIN message client w =
       (Inl (Base (InclusionPhaseNotInProgressError ''validateDSKAndEnterPinPromise'')), w)"
  by simp_all

lemma answer_on_pending_slot:
  "grantSecurityClassesPromise w = Some p \<Longrightarrow> is_pending w p \<Longrightarrow>
     fst (handle_controller e grantSecurityClasses message client w) = Inr (JObj [])
     \<and> promise_state (promises (snd (handle_controller e grantSecurityClasses message client w)) ! p)
         = Resolved (inclusionGrant message)"
  "validateDSKAndEnterPinPromise w = Some p \<Longrightarrow> is_pending w p \<Longrightarrow>
     fst (handle_controller e validateDSKAndEnterPIN message client w) = Inr (JObj [])
     \<and> promise_state (promises (snd (handle_controller e validateDSKAndEnterPIN message client w)) ! p)
         = Resolved (pin message)"
  by (simp_all add: resolve_def promise_state_settle)

lemma answer_on_settled_slot:
  "grantSecurityClassesPromise w = Some p \<Longrightarrow> \<not> is_pending w p \<Longrightarrow>
     handle_controller e grantSecurityClasses message client w = (Inr (JObj []), w)"
  "validateDSKAndEnterPinPromise w = Some p \<Longrightarrow> \<not> is_pending w p \<Longrightarrow>
     handle_controller e validateDSKAndEnterPIN message client w = (Inr (JObj []), w)"
  by (simp_all add: resolve_def settle_not_pending)

text \<open>
  C8. Two answers to the question which security classes to grant, handled in one turn
  while the prompt is pending. The handler of the first resolves promise 0 with the value
  it supplies and returns; the \<^verbatim>\<open>finally\<close> handler that empties the slot is queued
  and has not run. The handler of the second finds the slot still holding promise 0,
  which is settled: it returns the empty result like the first and changes nothing, so
  its value is dropped. The same answer handled after the queued handler has run is
  refused with the phase-not-in-progress error that names the slot.
\<close>

theorem second_answer_in_the_same_turn:
  "fst (handle_controller example_env grantSecurityClasses grant_answer 0 prompted) = Inr (JObj [])
   \<and> grantSecurityClassesPromise answered = Some 0
   \<and> \<not> is_pending answered 0
   \<and> promise_state (promises answered ! 0) = Resolved (JArr [JNum 7])
   \<and> handle_controller example_env grantSecurityClasses grant_answer_again 0 answered
       = (Inr (JObj []), answered)
   \<and> handle_controller example_env grantSecurityClasses grant_answer_again 0
        (run_microtasks answered)
       = (Inl (Base (InclusionPhaseNotInProgressError ''grantSecurityClassesPromise'')),
          run_microtasks answered)"
proof -
  have n: "\<not> is_pending answered 0"
    by (simp add: is_pending_def answered_simps)
  have s: "grantSecurityClassesPromise (run_microtasks answered) = None"
    by (simp add: run_microtasks_def run_reaction_def finally_handler_def answered_simps)
  from n s show ?thesis
    by (simp add: answered_simps prompted_simps(2) resolve_def settle_not_pending)
qed

subsection \<open>Abort\<close>

text \<open>
  C4, as the claim states it, at two inputs. The driver aborts the inclusion that session
  0 has started before it has asked anything: both slots are empty, and the abort callback
  sends \<^verbatim>\<open>inclusion aborted\<close> to session 0 all the same. The driver aborts operation
  A when a prompt of operation B has taken the slot: the slot holds the pending promise 1,
  of B, and still holds it, pending, after the abort and after the queued handlers have
  run.
\<close>

theorem abort_counterexample:
  "grantSecurityClassesPromise started = None
   \<and> validateDSKAndEnterPinPromise started = None
   \<and> socket_calls (sessions (cb_abort (fresh_callbacks 0) started) 0) =
       socket_calls (sessions started 0) @
         [Send (EventMessage (OutgoingEvent ''controller'' ''inclusion aborted'' [])) False]
   \<and> grantSecurityClassesPromise prompted_twice = Some 1
   \<and> is_pending prompted_twice 1
   \<and> is_pending (run_microtasks (cb_abort prompted_callbacks prompted_twice)) 1
   \<and> grantSecurityClassesPromise (run_microtasks (cb_abort prompted_callbacks prompted_twice))
       = Some 1"
proof -
  have a: "socket_calls (sessions (cb_abort (fresh_callbacks 0) started) 0) =
       socket_calls (sessions started 0) @
         [Send (EventMessage (OutgoingEvent ''controller'' ''inclusion aborted'' [])) False]"
    by (simp add: cb_abort_def fresh_callbacks_def send_defs)
  have r: "reject 0 ''aborted'' prompted_twice =
      prompted_twice\<lparr>promises :=
         [\<lparr>promise_state = Rejected ''aborted'', on_finally = GrantSecurityClasses\<rparr>,
          \<lparr>promise_state = Pending, on_finally = GrantSecurityClasses\<rparr>],
        microtasks := [0]\<rparr>"
    by (simp add: reject_def settle_def prompted_twice_simps)
  have b: "is_pending (run_microtasks (cb_abort prompted_callbacks prompted_twice)) 1"
    and c: "grantSecurityClassesPromise (run_microtasks (cb_abort prompted_callbacks prompted_twice))
       = Some 1"
    by (simp_all add: cb_abort_def prompted_simps(6) r sendEvent_def sendData_def
          update_client_def run_microtasks_sessions_update run_microtasks_def run_reaction_def
          finally_handler_def is_pending_def prompted_twice_simps)
  from a b c show ?thesis
    by (simp add: started_simps prompted_twice_simps is_pending_def)
qed

lemma cb_abort_eq:
  "cb_abort cbs w =
     sendEvent (cb_client cbs) (OutgoingEvent ''controller'' ''inclusion aborted'' [])
       ((case local_validateDSKAndEnterPinPromise cbs of
           None \<Rightarrow> id | Some q \<Rightarrow> settle q (Rejected ''aborted''))
          ((case local_grantSecurityClassesPromise cbs of
              None \<Rightarrow> id | Some p \<Rightarrow> settle p (Rejected ''aborted'')) w))"
  by (simp add: cb_abort_def reject_def Let_def split: option.splits)

lemma grant_slot_after_settle:
  "grantSecurityClassesPromise (run_microtasks (settle p outcome w)) =
     (if is_pending w p \<and> on_finally (promises w ! p) = GrantSecurityClasses
         \<and> grantSecurityClassesPromise (run_microtasks w) = Some p
      then None else grantSecurityClassesPromise (run_microtasks w))"
  by (cases "is_pending w p") (simp_all add: grant_slot_settled settle_not_pending)

lemma dsk_slot_after_settle:
  "validateDSKAndEnterPinPromise (run_microtasks (settle p outcome w)) =
     (if is_pending w p \<and> on_finally (promises w ! p) = ValidateDSKAndEnterPin
         \<and> validateDSKAndEnterPinPromise (run_microtasks w) = Some p
      then None else validateDSKAndEnterPinPromise (run_microtasks w))"
  by (cases "is_pending w p") (simp_all add: dsk_slot_settled settle_not_pending)

text \<open>
  C4, as the code has it. When the driver calls the abort callback of an operation, the
  session that started the operation is sent exactly one \<^verbatim>\<open>inclusion aborted\<close>
  event, whether or not anything is pending, and no other session is touched. A promise
  changes its state exactly when the callbacks of this operation remember it (for each
  channel, the promise the callback of this operation created last) and it is still
  pending; it is then rejected with the reason \<^verbatim>\<open>aborted\<close>. Once the queued
  \<^verbatim>\<open>finally\<close> handlers have run, a slot that would hold such a promise is empty,
  and any other slot is as it would be without the abort.
\<close>

theorem abort_rejects_and_reports:
  "callbacks_known cbs w \<Longrightarrow>
   socket_calls (sessions (cb_abort cbs w) (cb_client cbs)) =
     socket_calls (sessions w (cb_client cbs)) @
       [Send (EventMessage (OutgoingEvent ''controller'' ''inclusion aborted'' [])) False]
   \<and> (\<forall>c. c \<noteq> cb_client cbs \<longrightarrow> sessions (cb_abort cbs w) c = sessions w c)
   \<and> (\<forall>p. promise_state (promises (cb_abort cbs w) ! p) =
            (if remembered cbs p \<and> is_pending w p then Rejected ''aborted''
             else promise_state (promises w ! p)))
   \<and> grantSecurityClassesPromise (run_microtasks (cb_abort cbs w)) =
       (if \<exists>p. local_grantSecurityClassesPromise cbs = Some p \<and> is_pending w p
                \<and> grantSecurityClassesPromise (run_microtasks w) = Some p
        then None else grantSecurityClassesPromise (run_microtasks w))
   \<and> validateDSKAndEnterPinPromise (run_microtasks (cb_abort cbs w)) =
       (if \<exists>p. local_validateDSKAndEnterPinPromise cbs = Some p \<and> is_pending w p
                \<and> validateDSKAndEnterPinPromise (run_microtasks w) = Some p
        then None else validateDSKAndEnterPinPromise (run_microtasks w))"
proof -
  assume k: "callbacks_known cbs w"
  let ?w1 = "(case local_grantSecurityClassesPromise cbs of
               None \<Rightarrow> id | Some p \<Rightarrow> settle p (Rejected ''aborted'')) w"
  let ?w2 = "(case local_validateDSKAndEnterPinPromise cbs of
               None \<Rightarrow> id | Some q \<Rightarrow> settle q (Rejected ''aborted'')) ?w1"
  have e: "cb_abort cbs w =
      sendEvent (cb_client cbs) (OutgoingEvent ''controller'' ''inclusion aborted'' []) ?w2"
    by (rule cb_abort_eq)
  have s: "sessions ?w2 = sessions w"
    by (simp add: settle_keeps split: option.splits)
  have sock: "socket_calls (sessions (cb_abort cbs w) (cb_client cbs)) =
     socket_calls (sessions w (cb_client cbs)) @
       [Send (EventMessage (OutgoingEvent ''controller'' ''inclusion aborted'' [])) False]"
    and others: "\<forall>c. c \<noteq> cb_client cbs \<longrightarrow> sessions (cb_abort cbs w) c = sessions w c"
    unfolding e by (simp_all add: send_defs s)
  have st: "\<forall>p. promise_state (promises (cb_abort cbs w) ! p) =
            (if remembered cbs p \<and> is_pending w p then Rejected ''aborted''
             else promise_state (promises w ! p))"
    unfolding e
    by (auto simp: sendEvent_def sendData_def update_client_def remembered_def
          promise_state_settle is_pending_settle split: option.splits)
  have r: "run_microtasks (cb_abort cbs w) =
      (run_microtasks ?w2)\<lparr>sessions := sessions (cb_abort cbs w)\<rparr>"
    unfolding e
    by (simp add: sendEvent_def sendData_def update_client_def run_microtasks_sessions_update)
  have g: "grantSecurityClassesPromise (run_microtasks ?w2) =
       (if \<exists>p. local_grantSecurityClassesPromise cbs = Some p \<and> is_pending w p
                \<and> grantSecurityClassesPromise (run_microtasks w) = Some p
        then None else grantSecurityClassesPromise (run_microtasks w))"
    using k
    by (auto simp: callbacks_known_def grant_slot_after_settle is_pending_settle
          on_finally_settle split: option.splits)
  have d: "validateDSKAndEnterPinPromise (run_microtasks ?w2) =
       (if \<exists>p. local_validateDSKAndEnterPinPromise cbs = Some p \<and> is_pending w p
                \<and> validateDSKAndEnterPinPromise (run_microtasks w) = Some p
        then None else validateDSKAndEnterPinPromise (run_microtasks w))"
    using k
    by (auto simp: callbacks_known_def dsk_slot_after_settle is_pending_settle
          on_finally_settle split: option.splits)
  from sock others st g d show ?thesis
    by (simp only: r) simp
qed

theorem abort_rejects_and_reports_witness:
  "callbacks_known prompted_callbacks prompted
   \<and> remembered prompted_callbacks 0
   \<and> is_pending prompted 0
   \<and> grantSecurityClassesPromise prompted = Some 0
   \<and> socket_calls (sessions (cb_abort prompted_callbacks prompted) 0) =
       socket_calls (sessions prompted 0) @
         [Send (EventMessage (OutgoingEvent ''controller'' ''inclusion aborted'' [])) False]
   \<and> promise_state (promises (cb_abort prompted_callbacks prompted) ! 0) = Rejected ''aborted''
   \<and> grantSecurityClassesPromise (run_microtasks (cb_abort prompted_callbacks prompted)) = None
   \<and> validateDSKAndEnterPinPromise (run_microtasks (cb_abort prompted_callbacks prompted)) = None"
proof -
  have k: "callbacks_known prompted_callbacks prompted"
    by (simp add: callbacks_known_def prompted_simps)
  have r: "remembered prompted_callbacks 0"
    by (simp add: remembered_def prompted_simps)
  have p: "is_pending prompted 0"
    by (simp add: is_pending_def prompted_simps)
  have q: "run_microtasks prompted = prompted"
    by (simp add: run_microtasks_idle prompted_simps)
  have c: "cb_client prompted_callbacks = 0"
    "local_grantSecurityClassesPromise prompted_callbacks = Some 0"
    "local_validateDSKAndEnterPinPromise prompted_callbacks = None"
    by (simp_all add: prompted_simps)
  note t = abort_rejects_and_reports [where cbs = prompted_callbacks and w = prompted, OF k]
  from t have a: "socket_calls (sessions (cb_abort prompted_callbacks prompted) 0) =
       socket_calls (sessions prompted 0) @
         [Send (EventMessage (OutgoingEvent ''controller'' ''inclusion aborted'' [])) False]"
    by (simp add: c)
  from t r p have b: "promise_state (promises (cb_abort prompted_callbacks prompted) ! 0)
       = Rejected ''aborted''"
    by simp
  from t p have g: "grantSecurityClassesPromise (run_microtasks (cb_abort prompted_callbacks prompted)) = None"
    by (simp add: c q prompted_simps(2))
  from t have d: "validateDSKAndEnterPinPromise (run_microtasks (cb_abort prompted_callbacks prompted)) = None"
    by (simp add: c q prompted_simps(3))
  from k r p a b g d show ?thesis
    by (simp add: prompted_simps(2))
qed

subsection \<open>The handlers and the socket\<close>

lemma sessions_returning: "sessions (snd (returning e dc wrap w)) = sessions w"
  by (simp add: returning_def call_driver_def split: sum.splits)

lemma sessions_handle_controller:
  "sessions (snd (handle_controller e cc message client w)) = sessions w"
  by (cases cc) (simp_all add: sessions_returning resolve_def settle_keeps split: option.splits)

lemma sessions_handle: "sessions (snd (handle e message client w)) = sessions w"
  by (simp add: handle_def sessions_handle_controller split: command.splits)

lemma socket_instanceHandlers:
  "handlers_leave_socket e c \<Longrightarrow>
   socket_calls (sessions (snd (instanceHandlers e i message c w)) c) = socket_calls (sessions w c)
   \<and> socket_readyState (sessions (snd (instanceHandlers e i message c w)) c)
       = socket_readyState (sessions w c)"
  by (simp add: instanceHandlers_def sessions_handle handlers_leave_socket_def)


lemma awaited_cases:
  "awaited c msg r w = (Some err, w1) \<Longrightarrow> r = Inl err \<and> w1 = w"
  "awaited c msg r w = (None, w1) \<Longrightarrow>
     \<exists>result. r = Inr result \<and> w1 = sendResultSuccess c (messageId msg) result False w"
  by (auto simp: awaited_def split: sum.splits)

lemma try_block_throws:
  assumes "try_block e c msg w = (Some err, w1)" and "handlers_leave_socket e c"
  shows "socket_calls (sessions w1 c) = socket_calls (sessions w c)
         \<and> socket_readyState (sessions w1 c) = socket_readyState (sessions w c)"
proof (cases "instance_of (command msg)")
  case None
  with assms(1) show ?thesis
    by (cases "command msg")
       (auto simp: try_block_def Let_def send_defs call_driver_def awaited_def
          run_microtasks_keeps split: if_splits sum.splits option.splits)
next
  case (Some i)
  from socket_instanceHandlers [OF assms(2), of i msg w]
  have "socket_calls (sessions (snd (instanceHandlers e i msg c w)) c) = socket_calls (sessions w c)"
    and "socket_readyState (sessions (snd (instanceHandlers e i msg c w)) c) = socket_readyState (sessions w c)"
    by simp_all
  with Some assms(1) show ?thesis
    by (cases "command msg")
       (auto simp: try_block_def awaited_def run_microtasks_keeps split: sum.splits prod.splits)
qed


lemma catch_block_socket:
  "socket_calls (sessions (catch_block c msg err w) c) =
     socket_calls (sessions w c) @ [Send (failure_result (messageId msg) err) False]
   \<and> socket_readyState (sessions (catch_block c msg err w) c) = socket_readyState (sessions w c)"
  by (cases err) (simp_all add: send_defs)

lemma thrown_is_answered:
  assumes "handlers_leave_socket e c" and "JSON_parse e data = Some (Parsed msg)"
    and "fst (try_block e c msg w) = Some err"
  shows "failure_sent e c data w msg err"
proof -
  obtain w1 where t: "try_block e c msg w = (Some err, w1)"
    using assms(3) by (cases "try_block e c msg w") auto
  from try_block_throws [OF t assms(1)] catch_block_socket [of c msg err w1] assms(2) t
  show ?thesis
    by (simp add: failure_sent_def receiveMessage_def)
qed

lemma handler_passes_driver_error:
  "driver_call_of cc c msg = Some dc \<Longrightarrow>
   cc = beginInclusion \<longrightarrow>
     grantSecurityClassesPromise w = None \<and> validateDSKAndEnterPinPromise w = None \<Longrightarrow>
   driver_answer e (driver_calls w) dc = Inl err \<Longrightarrow>
   fst (handle_controller e cc msg c w) = Inl err"
  by (cases cc) (auto simp: returning_def call_driver_def)

lemma try_block_controller:
  "command msg = ControllerCmd cc \<Longrightarrow>
   fst (try_block e c msg w) =
     (case fst (handle_controller e cc msg c w) of Inl err \<Rightarrow> Some err | Inr r \<Rightarrow> None)"
  by (cases "handle_controller e cc msg c w")
     (simp add: try_block_def instanceHandlers_def handle_def awaited_def split: sum.splits)

subsection \<open>Failures at the boundary of the session\<close>

text \<open>The frame \<^verbatim>\<open>null\<close>: nothing is sent, nothing is closed.\<close>

lemma null_frame_escapes:
  "JSON_parse e data = Some ParsedNull \<Longrightarrow> receiveMessage e c data w = w"
  by (simp add: receiveMessage_def)

text \<open>A command whose prefix names an inherited member gets what the member returns.\<close>

lemma inherited_member_answers:
  "JSON_parse e data = Some (Parsed msg) \<Longrightarrow> command msg = NoInstanceCmd prefix rest \<Longrightarrow>
   inherited_members e prefix = Some member \<Longrightarrow> member msg = Inr result \<Longrightarrow>
   socket_calls (sessions (receiveMessage e c data w) c) =
     socket_calls (sessions w c) @ [Send (ResultSuccess (messageId msg) result) False]"
  by (simp add: receiveMessage_def try_block_def awaited_def send_defs run_microtasks_keeps)

text \<open>
  C3, as the claim states it, at the frame \<^verbatim>\<open>42\<close>, which is no structured message.
  \<^verbatim>\<open>JSON.parse\<close> accepts it, so the connection is not closed; the value has no
  member \<^verbatim>\<open>command\<close>, \<^verbatim>\<open>msg.command.split\<close> throws, and the session answers
  with a failure result of the code for an unknown error, whose \<^verbatim>\<open>messageId\<close> is
  absent.
\<close>

theorem not_a_message_counterexample:
  "JSON_parse example_env ''42'' = Some (Parsed not_a_message)
   \<and> command not_a_message = NoCommand
   \<and> messageId not_a_message = None
   \<and> socket_calls (sessions (receiveMessage example_env 0 ''42'' one_client) 0) =
       socket_calls (sessions one_client 0) @ [Send (ResultError None unknownError None) False]
   \<and> socket_readyState (sessions (receiveMessage example_env 0 ''42'' one_client) 0) = OPEN"
  by (simp add: example_parse_simps not_a_message_def blank_message_def receiveMessage_def
        try_block_def send_defs one_client_session)

text \<open>
  C3, as the code has it. A frame on which \<^verbatim>\<open>JSON.parse\<close> throws makes the session
  close its socket and send nothing. For a frame that parses to a value other than
  \<^verbatim>\<open>null\<close>, whatever is thrown while it is processed is answered by exactly one
  failure result with the \<^verbatim>\<open>messageId\<close> of the frame, sent uncompressed, and the
  state of the socket stays as it was. This covers a value without a \<^verbatim>\<open>command\<close>
  (the code for an unknown error); a command whose prefix names neither a handler nor an
  inherited member of the table of handlers, and an unknown command of the
  \<^verbatim>\<open>controller\<close> namespace (unknown command); a schema version out of range; an
  inclusion started while a slot is taken; an answer to a prompt while the slot is empty;
  and whatever the driver or a handler of another namespace throws. A \<^verbatim>\<open>ZWaveError\<close>
  of the driver is answered with its own code and message. The handlers of the other
  namespaces are taken to make no call on the socket of the session.
\<close>

theorem failures_at_the_session_boundary:
  "handlers_leave_socket e c \<Longrightarrow>
   (JSON_parse e data = None \<longrightarrow>
      socket_calls (sessions (receiveMessage e c data w) c) = socket_calls (sessions w c) @ [Close])
   \<and> (JSON_parse e data = Some (Parsed msg) \<longrightarrow>
        (\<forall>err. fst (try_block e c msg w) = Some err \<longrightarrow> failure_sent e c data w msg err)
      \<and> (command msg = NoCommand \<longrightarrow> failure_sent e c data w msg Unexpected)
      \<and> (\<forall>prefix rest.
            command msg = NoInstanceCmd prefix rest \<and> inherited_members e prefix = None \<longrightarrow>
            failure_sent e c data w msg (Base (UnknownCommandError (command msg))))
      \<and> (\<forall>a. command msg = ControllerOther a \<longrightarrow>
            failure_sent e c data w msg (Base (UnknownCommandError (command msg))))
      \<and> (command msg = setApiSchema
          \<and> (msg_schemaVersion msg < minSchemaVersion e
              \<or> msg_schemaVersion msg > maxSchemaVersion e) \<longrightarrow>
            failure_sent e c data w msg (Base (SchemaIncompatibleError (msg_schemaVersion msg))))
      \<and> (command msg = ControllerCmd beginInclusion
          \<and> (grantSecurityClassesPromise w \<noteq> None \<or> validateDSKAndEnterPinPromise w \<noteq> None) \<longrightarrow>
            failure_sent e c data w msg (Base InclusionAlreadyInProgressError))
      \<and> (command msg = ControllerCmd grantSecurityClasses
          \<and> grantSecurityClassesPromise w = None \<longrightarrow>
            failure_sent e c data w msg
              (Base (InclusionPhaseNotInProgressError ''grantSecurityClassesPromise'')))
      \<and> (command msg = ControllerCmd validateDSKAndEnterPIN
          \<and> validateDSKAndEnterPinPromise w = None \<longrightarrow>
            failure_sent e c data w msg
              (Base (InclusionPhaseNotInProgressError ''validateDSKAndEnterPinPromise'')))
      \<and> (\<forall>cc dc err.
            command msg = ControllerCmd cc \<and> driver_call_of cc c msg = Some dc
            \<and> (cc = beginInclusion \<longrightarrow>
                  grantSecurityClassesPromise w = None \<and> validateDSKAndEnterPinPromise w = None)
            \<and> driver_answer e (driver_calls w) dc = Inl err \<longrightarrow>
            failure_sent e c data w msg err)
      \<and> (\<forall>err.
            command msg = updateLogConfig
            \<and> driver_answer e (driver_calls w) (UpdateLogConfig (config msg)) = Inl err \<longrightarrow>
            failure_sent e c data w msg err)
      \<and> (\<forall>i a err.
            command msg = InstanceCmd i a \<and> i \<noteq> controller
            \<and> fst (otherHandlers e i msg c w) = Inl err \<longrightarrow>
            failure_sent e c data w msg err)
      \<and> (\<forall>cc dc code message.
            command msg = ControllerCmd cc \<and> driver_call_of cc c msg = Some dc
            \<and> (cc = beginInclusion \<longrightarrow>
                  grantSecurityClassesPromise w = None \<and> validateDSKAndEnterPinPromise w = None)
            \<and> driver_answer e (driver_calls w) dc = Inl (ZWaveError code message) \<longrightarrow>
            socket_calls (sessions (receiveMessage e c data w) c) =
              socket_calls (sessions w c) @
                [Send (ResultZWaveError (messageId msg) code message) False]))"
proof (intro conjI impI allI)
  assume "JSON_parse e data = None"
  then show "socket_calls (sessions (receiveMessage e c data w) c) = socket_calls (sessions w c) @ [Close]"
    by (simp add: receiveMessage_def update_client_def socket_close_def socket_calls_def
          calls_of_append)
next
  fix err
  assume "handlers_leave_socket e c" "JSON_parse e data = Some (Parsed msg)"
    "fst (try_block e c msg w) = Some err"
  then show "failure_sent e c data w msg err"
    by (rule thrown_is_answered)
next
  assume h: "handlers_leave_socket e c" "JSON_parse e data = Some (Parsed msg)"
  assume "command msg = NoCommand"
  then have "fst (try_block e c msg w) = Some Unexpected"
    by (simp add: try_block_def)
  with h show "failure_sent e c data w msg Unexpected"
    by (rule thrown_is_answered)
next
  fix prefix rest
  assume h: "handlers_leave_socket e c" "JSON_parse e data = Some (Parsed msg)"
  assume "command msg = NoInstanceCmd prefix rest \<and> inherited_members e prefix = None"
  then have "fst (try_block e c msg w) = Some (Base (UnknownCommandError (command msg)))"
    by (simp add: try_block_def)
  with h show "failure_sent e c data w msg (Base (UnknownCommandError (command msg)))"
    by (rule thrown_is_answered)
next
  fix a
  assume h: "handlers_leave_socket e c" "JSON_parse e data = Some (Parsed msg)"
  assume "command msg = ControllerOther a"
  then have "fst (try_block e c msg w) = Some (Base (UnknownCommandError (command msg)))"
    by (simp add: try_block_def instanceHandlers_def handle_def awaited_def)
  with h show "failure_sent e c data w msg (Base (UnknownCommandError (command msg)))"
    by (rule thrown_is_answered)
next
  assume h: "handlers_leave_socket e c" "JSON_parse e data = Some (Parsed msg)"
  assume "command msg = setApiSchema
          \<and> (msg_schemaVersion msg < minSchemaVersion e
              \<or> msg_schemaVersion msg > maxSchemaVersion e)"
  then have "fst (try_block e c msg w) = Some (Base (SchemaIncompatibleError (msg_schemaVersion msg)))"
    by (auto simp: try_block_def Let_def update_client_def set_schemaVersion_def)
  with h show "failure_sent e c data w msg (Base (SchemaIncompatibleError (msg_schemaVersion msg)))"
    by (rule thrown_is_answered)
next
  assume h: "handlers_leave_socket e c" "JSON_parse e data = Some (Parsed msg)"
  assume "command msg = ControllerCmd beginInclusion
          \<and> (grantSecurityClassesPromise w \<noteq> None \<or> validateDSKAndEnterPinPromise w \<noteq> None)"
  then have "fst (try_block e c msg w) = Some (Base InclusionAlreadyInProgressError)"
    by (auto simp: try_block_controller)
  with h show "failure_sent e c data w msg (Base InclusionAlreadyInProgressError)"
    by (rule thrown_is_answered)
next
  assume h: "handlers_leave_socket e c" "JSON_parse e data = Some (Parsed msg)"
  assume "command msg = ControllerCmd grantSecurityClasses \<and> grantSecurityClassesPromise w = None"
  then have "fst (try_block e c msg w) =
      Some (Base (InclusionPhaseNotInProgressError ''grantSecurityClassesPromise''))"
    by (simp add: try_block_controller)
  with h show "failure_sent e c data w msg
      (Base (InclusionPhaseNotInProgressError ''grantSecurityClassesPromise''))"
    by (rule thrown_is_answered)
next
  assume h: "handlers_leave_socket e c" "JSON_parse e data = Some (Parsed msg)"
  assume "command msg = ControllerCmd validateDSKAndEnterPIN
          \<and> validateDSKAndEnterPinPromise w = None"
  then have "fst (try_block e c msg w) =
      Some (Base (InclusionPhaseNotInProgressError ''validateDSKAndEnterPinPromise''))"
    by (simp add: try_block_controller)
  with h show "failure_sent e c data w msg
      (Base (InclusionPhaseNotInProgressError ''validateDSKAndEnterPinPromise''))"
    by (rule thrown_is_answered)
next
  fix cc dc err
  assume h: "handlers_leave_socket e c" "JSON_parse e data = Some (Parsed msg)"
  assume a: "command msg = ControllerCmd cc \<and> driver_call_of cc c msg = Some dc
            \<and> (cc = beginInclusion \<longrightarrow>
                  grantSecurityClassesPromise w = None \<and> validateDSKAndEnterPinPromise w = None)
            \<and> driver_answer e (driver_calls w) dc = Inl err"
  then have "fst (handle_controller e cc msg c w) = Inl err"
    using handler_passes_driver_error [of cc c msg dc w e err] by blast
  with a have "fst (try_block e c msg w) = Some err"
    by (simp add: try_block_controller)
  with h show "failure_sent e c data w msg err"
    by (rule thrown_is_answered)
next
  fix err
  assume h: "handlers_leave_socket e c" "JSON_parse e data = Some (Parsed msg)"
  assume "command msg = updateLogConfig
            \<and> driver_answer e (driver_calls w) (UpdateLogConfig (config msg)) = Inl err"
  then have "fst (try_block e c msg w) = Some err"
    by (simp add: try_block_def call_driver_def)
  with h show "failure_sent e c data w msg err"
    by (rule thrown_is_answered)
next
  fix i a err
  assume h: "handlers_leave_socket e c" "JSON_parse e data = Some (Parsed msg)"
  assume "command msg = InstanceCmd i a \<and> i \<noteq> controller
            \<and> fst (otherHandlers e i msg c w) = Inl err"
  then have "fst (try_block e c msg w) = Some err"
    by (cases "otherHandlers e i msg c w")
       (simp add: try_block_def instanceHandlers_def awaited_def)
  with h show "failure_sent e c data w msg err"
    by (rule thrown_is_answered)
next
  fix cc dc code message
  assume h: "handlers_leave_socket e c" "JSON_parse e data = Some (Parsed msg)"
  assume a: "command msg = ControllerCmd cc \<and> driver_call_of cc c msg = Some dc
            \<and> (cc = beginInclusion \<longrightarrow>
                  grantSecurityClassesPromise w = None \<and> validateDSKAndEnterPinPromise w = None)
            \<and> driver_answer e (driver_calls w) dc = Inl (ZWaveError code message)"
  then have "fst (handle_controller e cc msg c w) = Inl (ZWaveError code message)"
    using handler_passes_driver_error [of cc c msg dc w e "ZWaveError code message"] by blast
  with a have "fst (try_block e c msg w) = Some (ZWaveError code message)"
    by (simp add: try_block_controller)
  with h have "failure_sent e c data w msg (ZWaveError code message)"
    by (rule thrown_is_answered)
  then show "socket_calls (sessions (receiveMessage e c data w) c) =
              socket_calls (sessions w c) @
                [Send (ResultZWaveError (messageId msg) code message) False]"
    by (simp add: failure_sent_def)
qed

theorem failures_at_the_session_boundary_witness:
  "handlers_leave_socket example_env 0
   \<and> JSON_parse example_env ''garbage'' = None
   \<and> socket_calls (sessions (receiveMessage example_env 0 ''garbage'' one_client) 0)
       = socket_calls (sessions one_client 0) @ [Close]
   \<and> JSON_parse example_env ''{command: nonsense, messageId: e}''
       = Some (Parsed (blank_message (NoInstanceCmd ''nonsense'' []) ''e''))
   \<and> socket_calls (sessions (receiveMessage example_env 0
        ''{command: nonsense, messageId: e}'' one_client) 0)
       = socket_calls (sessions one_client 0) @
           [Send (ResultError (Some (JStr ''e'')) unknownCommand
                    (Some (UnknownCommandError (NoInstanceCmd ''nonsense'' [])))) False]
   \<and> JSON_parse failing_env ''{command: controller.stop_inclusion, messageId: f}''
       = Some (Parsed (blank_message (ControllerCmd stopInclusion) ''f''))
   \<and> driver_answer failing_env (driver_calls one_client) StopInclusion
       = Inl (ZWaveError (JNum 202) ''node not found'')
   \<and> socket_calls (sessions (receiveMessage failing_env 0
        ''{command: controller.stop_inclusion, messageId: f}'' one_client) 0)
       = socket_calls (sessions one_client 0) @
           [Send (ResultZWaveError (Some (JStr ''f'')) (JNum 202) ''node not found'') False]
   \<and> socket_readyState (sessions (receiveMessage failing_env 0
        ''{command: controller.stop_inclusion, messageId: f}'' one_client) 0) = OPEN"
proof -
  let ?m1 = "blank_message (NoInstanceCmd ''nonsense'' []) ''e''"
  let ?m2 = "blank_message (ControllerCmd stopInclusion) ''f''"
  have f1: "command ?m1 = NoInstanceCmd ''nonsense'' []" "messageId ?m1 = Some (JStr ''e'')"
    and f2: "command ?m2 = ControllerCmd stopInclusion" "messageId ?m2 = Some (JStr ''f'')"
    by (simp_all add: blank_message_def)
  have i: "inherited_members example_env ''nonsense'' = None"
    by (simp add: example_env_def)
  have d: "driver_answer failing_env (driver_calls one_client) StopInclusion
       = Inl (ZWaveError (JNum 202) ''node not found'')"
    by (simp add: failing_env_def)
  have o: "socket_readyState (sessions one_client 0) = OPEN"
    by (simp add: one_client_session)
  note a = failures_at_the_session_boundary
             [where e = example_env and c = 0 and data = "''garbage''" and w = one_client,
              OF example_handlers(1)]
  note b = failures_at_the_session_boundary
             [where e = example_env and c = 0
              and data = "''{command: nonsense, messageId: e}''" and w = one_client
              and msg = ?m1, OF example_handlers(1)]
  note c = failures_at_the_session_boundary
             [where e = failing_env and c = 0
              and data = "''{command: controller.stop_inclusion, messageId: f}''"
              and w = one_client and msg = ?m2, OF example_handlers(2)]
  from a have a': "socket_calls (sessions (receiveMessage example_env 0 ''garbage'' one_client) 0)
       = socket_calls (sessions one_client 0) @ [Close]"
    by (simp add: example_parse_simps)
  from b f1 i have "failure_sent example_env 0 ''{command: nonsense, messageId: e}'' one_client ?m1
      (Base (UnknownCommandError (NoInstanceCmd ''nonsense'' [])))"
    by (simp add: example_parse_simps)
  then have b': "socket_calls (sessions (receiveMessage example_env 0
        ''{command: nonsense, messageId: e}'' one_client) 0)
       = socket_calls (sessions one_client 0) @
           [Send (ResultError (Some (JStr ''e'')) unknownCommand
                    (Some (UnknownCommandError (NoInstanceCmd ''nonsense'' [])))) False]"
    by (simp add: failure_sent_def f1)
  have dc: "driver_call_of stopInclusion 0 ?m2 = Some StopInclusion"
    by simp
  from c f2(1) dc d
  have "failure_sent failing_env 0 ''{command: controller.stop_inclusion, messageId: f}''
          one_client ?m2 (ZWaveError (JNum 202) ''node not found'')"
    by (simp add: example_parse_simps)
  then have c': "socket_calls (sessions (receiveMessage failing_env 0
        ''{command: controller.stop_inclusion, messageId: f}'' one_client) 0)
       = socket_calls (sessions one_client 0) @
           [Send (ResultZWaveError (Some (JStr ''f'')) (JNum 202) ''node not found'') False]
     \<and> socket_readyState (sessions (receiveMessage failing_env 0
        ''{command: controller.stop_inclusion, messageId: f}'' one_client) 0) = OPEN"
    by (simp add: failure_sent_def f2 o)
  from example_handlers(1) a' b' c' d show ?thesis
    by (simp add: example_parse_simps)
qed

subsection \<open>Schema negotiation\<close>

text \<open>
  C9. A \<^verbatim>\<open>set_api_schema\<close> command whose version is below \<^verbatim>\<open>minSchemaVersion\<close> or
  above \<^verbatim>\<open>maxSchemaVersion\<close> is answered by one failure result with the code for an
  incompatible schema, and the socket is left open. In whatever state the session is,
  hence also after such failures, a \<^verbatim>\<open>set_api_schema\<close> command with a version in range
  is answered by a success result with the empty payload, and the session then holds the
  version of this last command.
\<close>

theorem schema_negotiation:
  "JSON_parse e data = Some (Parsed msg) \<Longrightarrow> command msg = setApiSchema \<Longrightarrow>
   (msg_schemaVersion msg < minSchemaVersion e \<or> msg_schemaVersion msg > maxSchemaVersion e \<longrightarrow>
      socket_calls (sessions (receiveMessage e c data w) c) =
        socket_calls (sessions w c) @
          [Send (ResultError (messageId msg) schemaIncompatible
                   (Some (SchemaIncompatibleError (msg_schemaVersion msg)))) False]
      \<and> socket_readyState (sessions (receiveMessage e c data w) c) = socket_readyState (sessions w c))
   \<and> (minSchemaVersion e \<le> msg_schemaVersion msg \<and> msg_schemaVersion msg \<le> maxSchemaVersion e \<longrightarrow>
      socket_calls (sessions (receiveMessage e c data w) c) =
        socket_calls (sessions w c) @ [Send (ResultSuccess (messageId msg) (JObj [])) False]
      \<and> schemaVersion (sessions (receiveMessage e c data w) c) = msg_schemaVersion msg
      \<and> socket_readyState (sessions (receiveMessage e c data w) c) = socket_readyState (sessions w c))"
  by (auto simp: receiveMessage_def try_block_def Let_def send_defs)

theorem schema_negotiation_witness:
  "JSON_parse example_env ''{command: set_api_schema, messageId: a, schemaVersion: 99}''
     = Some (Parsed ((blank_message setApiSchema ''a'')\<lparr>msg_schemaVersion := 99\<rparr>))
   \<and> command ((blank_message setApiSchema ''a'')\<lparr>msg_schemaVersion := 99\<rparr>) = setApiSchema
   \<and> maxSchemaVersion example_env < 99
   \<and> socket_calls (sessions (receiveMessage example_env 0
        ''{command: set_api_schema, messageId: a, schemaVersion: 99}'' one_client) 0)
      = socket_calls (sessions one_client 0) @
          [Send (ResultError (Some (JStr ''a'')) schemaIncompatible
                   (Some (SchemaIncompatibleError 99))) False]
   \<and> socket_calls (sessions (receiveMessage example_env 0
        ''{command: set_api_schema, messageId: b, schemaVersion: 5}''
        (receiveMessage example_env 0
           ''{command: set_api_schema, messageId: a, schemaVersion: 99}'' one_client)) 0)
      = socket_calls (sessions one_client 0) @
          [Send (ResultError (Some (JStr ''a'')) schemaIncompatible
                   (Some (SchemaIncompatibleError 99))) False,
           Send (ResultSuccess (Some (JStr ''b'')) (JObj [])) False]
   \<and> schemaVersion (sessions (receiveMessage example_env 0
        ''{command: set_api_schema, messageId: b, schemaVersion: 5}''
        (receiveMessage example_env 0
           ''{command: set_api_schema, messageId: a, schemaVersion: 99}'' one_client)) 0) = 5"
proof -
  let ?d99 = "''{command: set_api_schema, messageId: a, schemaVersion: 99}''"
  let ?d5 = "''{command: set_api_schema, messageId: b, schemaVersion: 5}''"
  let ?m99 = "(blank_message setApiSchema ''a'')\<lparr>msg_schemaVersion := 99\<rparr>"
  let ?m5 = "(blank_message setApiSchema ''b'')\<lparr>msg_schemaVersion := 5\<rparr>"
  let ?w1 = "receiveMessage example_env 0 ?d99 one_client"
  have p99: "JSON_parse example_env ?d99 = Some (Parsed ?m99)"
    and p5: "JSON_parse example_env ?d5 = Some (Parsed ?m5)"
    by (simp_all add: example_parse_simps)
  have c99: "command ?m99 = setApiSchema" and c5: "command ?m5 = setApiSchema"
    by (simp_all add: blank_message_def)
  have r: "minSchemaVersion example_env = 0" "maxSchemaVersion example_env = 8"
    by (simp_all add: example_env_def)
  have f: "msg_schemaVersion ?m99 = 99" "messageId ?m99 = Some (JStr ''a'')"
          "msg_schemaVersion ?m5 = 5" "messageId ?m5 = Some (JStr ''b'')"
    by (simp_all add: blank_message_def)
  from schema_negotiation [OF p99 c99, of 0 one_client] r f
  have a: "socket_calls (sessions ?w1 0)
      = socket_calls (sessions one_client 0) @
          [Send (ResultError (Some (JStr ''a'')) schemaIncompatible
                   (Some (SchemaIncompatibleError 99))) False]"
    by simp
  from schema_negotiation [OF p5 c5, of 0 ?w1] r f a
  have b: "socket_calls (sessions (receiveMessage example_env 0 ?d5 ?w1) 0)
      = socket_calls (sessions one_client 0) @
          [Send (ResultError (Some (JStr ''a'')) schemaIncompatible
                   (Some (SchemaIncompatibleError 99))) False,
           Send (ResultSuccess (Some (JStr ''b'')) (JObj [])) False]"
    and c: "schemaVersion (sessions (receiveMessage example_env 0 ?d5 ?w1) 0) = 5"
    by simp_all
  from p99 c99 r a b c show ?thesis by simp
qed

lemma receive_setApiSchema:
  "JSON_parse e data = Some (Parsed msg) \<Longrightarrow> command msg = setApiSchema \<Longrightarrow>
   receiveMessage e c data w =
     (if msg_schemaVersion msg < minSchemaVersion e \<or> msg_schemaVersion msg > maxSchemaVersion e
      then sendResultError c (messageId msg) schemaIncompatible
             (Some (SchemaIncompatibleError (msg_schemaVersion msg)))
             (update_client c (set_schemaVersion (msg_schemaVersion msg)) w)
      else sendResultSuccess c (messageId msg) (JObj []) False
             (update_client c (set_schemaVersion (msg_schemaVersion msg)) w))"
  by (simp add: receiveMessage_def try_block_def Let_def update_client_def set_schemaVersion_def)

lemma receive_startListening:
  "JSON_parse e data = Some (Parsed msg) \<Longrightarrow> command msg = startListening \<Longrightarrow>
   receiveMessage e c data w =
     update_client c (set_receiveEvents True)
       (sendResultSuccess c (messageId msg)
          (JObj [(''state'', dumpState e (driver_calls w) (schemaVersion (sessions w c)))])
          True w)"
  by (simp add: receiveMessage_def try_block_def Let_def)

subsection \<open>A schema version out of range\<close>

text \<open>
  C2. A session that asks for schema version 99, with 8 the highest supported, gets a
  failure result and keeps 99 as its schema version; the \<^verbatim>\<open>start_listening\<close>
  command that follows is answered with the state dump made for version 99.
\<close>

theorem rejected_schema_version_is_kept:
  "maxSchemaVersion example_env = 8
   \<and> schemaVersion (sessions (receiveMessage example_env 0
         ''{command: set_api_schema, messageId: a, schemaVersion: 99}'' one_client) 0) = 99
   \<and> socket_calls (sessions
        (receiveMessage example_env 0 ''{command: start_listening, messageId: c}''
          (receiveMessage example_env 0
             ''{command: set_api_schema, messageId: a, schemaVersion: 99}'' one_client)) 0) =
       [Send (VersionMessage (JStr ''8.0.1'') (JStr ''1.9.0'') (JNum 1) 0 8) False,
        Send (ResultError (Some (JStr ''a'')) schemaIncompatible
                (Some (SchemaIncompatibleError 99))) False,
        Send (ResultSuccess (Some (JStr ''c''))
                (JObj [(''state'', dumpState example_env [] 99)])) True]"
proof -
  let ?d99 = "''{command: set_api_schema, messageId: a, schemaVersion: 99}''"
  let ?ds = "''{command: start_listening, messageId: c}''"
  let ?m99 = "(blank_message setApiSchema ''a'')\<lparr>msg_schemaVersion := 99\<rparr>"
  let ?ms = "blank_message startListening ''c''"
  have r: "minSchemaVersion example_env = 0" "maxSchemaVersion example_env = 8"
    by (simp_all add: example_env_def)
  have f: "command ?m99 = setApiSchema" "msg_schemaVersion ?m99 = 99"
          "messageId ?m99 = Some (JStr ''a'')"
          "command ?ms = startListening" "messageId ?ms = Some (JStr ''c'')"
    by (simp_all add: blank_message_def)
  have step1: "receiveMessage example_env 0 ?d99 one_client =
      sendResultError 0 (Some (JStr ''a'')) schemaIncompatible (Some (SchemaIncompatibleError 99))
        (update_client 0 (set_schemaVersion 99) one_client)"
    using receive_setApiSchema [OF example_parse_simps(3) f(1), of 0 one_client]
    by (simp add: r f)
  have step2: "receiveMessage example_env 0 ?ds (receiveMessage example_env 0 ?d99 one_client) =
      update_client 0 (set_receiveEvents True)
       (sendResultSuccess 0 (Some (JStr ''c''))
          (JObj [(''state'',
                  dumpState example_env
                    (driver_calls (receiveMessage example_env 0 ?d99 one_client))
                    (schemaVersion (sessions (receiveMessage example_env 0 ?d99 one_client) 0)))])
          True (receiveMessage example_env 0 ?d99 one_client))"
    using receive_startListening [OF example_parse_simps(5) f(4), of 0
            "receiveMessage example_env 0 ?d99 one_client"]
    by (simp add: f)
  show ?thesis
    by (subst step2) (simp add: step1 r send_defs one_client_session one_client_simps)
qed

subsection \<open>Start listening\<close>














text \<open>
  With the forwarder as the spec describes it, an event forwarded after
  \<^verbatim>\<open>start_listening\<close> follows the snapshot on the socket.
\<close>

lemma event_after_snapshot:
  "socket_calls (sessions
     (forwardEvent event
        (receiveMessage example_env 0 ''{command: start_listening, messageId: c}'' one_client)) 0)
   = socket_calls (sessions one_client 0) @
       [Send (ResultSuccess (Some (JStr ''c''))
                (JObj [(''state'', JObj [(''schemaVersion'', JNum 0)])])) True,
        Send (EventMessage event) False]"
proof -
  have f: "command (blank_message startListening ''c'') = startListening"
    "messageId (blank_message startListening ''c'') = Some (JStr ''c'')"
    by (simp_all add: blank_message_def)
  show ?thesis
    by (subst receive_startListening [OF example_parse_simps(5) f(1)])
       (simp add: f forwardEvent_def send_defs one_client_simps one_client_session isConnected_def
          example_env_def)
qed

subsection \<open>Starting an operation while a prompt is pending\<close>

lemma begin_inclusion_guarded:
  "grantSecurityClassesPromise w \<noteq> None \<or> validateDSKAndEnterPinPromise w \<noteq> None \<Longrightarrow>
   handle_controller e beginInclusion message client w
     = (Inl (Base InclusionAlreadyInProgressError), w)"
  by auto

lemma replace_failed_node_calls_driver:
  "driver_calls (snd (handle_controller e replaceFailedNode message client w)) =
     driver_calls w @ [ReplaceFailedNode (nodeId message) (processInclusionOptions client message)]"
  by (simp add: returning_def call_driver_def split: sum.splits)

text \<open>
  C1. With promise 0 pending in the slot for the grant of security classes, a
  \<^verbatim>\<open>controller.replace_failed_node\<close> command with the default strategy is not refused:
  the controller is called with options that carry fresh callbacks, and the command
  succeeds. The same message sent as \<^verbatim>\<open>controller.begin_inclusion\<close> is refused with
  the error for an inclusion already in progress, and the controller is not called.
\<close>

theorem replace_failed_node_while_pending:
  "grantSecurityClassesPromise prompted = Some 0
   \<and> is_pending prompted 0
   \<and> handle example_env interactive_replace 0 prompted =
       (Inr (JObj [(''success'', JBool True)]),
        prompted\<lparr>driver_calls := driver_calls prompted @
          [ReplaceFailedNode 5
             \<lparr>strategy = Default, userCallbacks = Some (fresh_callbacks 0),
              other_options = JObj []\<rparr>]\<rparr>)
   \<and> handle example_env (interactive_replace\<lparr>command := ControllerCmd beginInclusion\<rparr>) 0 prompted =
       (Inl (Base InclusionAlreadyInProgressError), prompted)"
  by (simp add: prompted_simps(1-3) is_pending_def handle_def interactive_replace_def
        blank_message_def returning_def call_driver_def processInclusionOptions_def
        fresh_callbacks_def example_env_def field_def)

subsection \<open>The interval timer and the liveness probe\<close>

lemma pingInterval_loop_connected:
  "list_all (\<lambda>c. isConnected (sessions w c)) cs \<Longrightarrow>
   pingInterval_loop cs newClients w = (newClients @ cs, w)"
  by (induction cs arbitrary: newClients) simp_all

lemma pingInterval_callback_connected:
  "list_all (\<lambda>c. isConnected (sessions w c)) (clients w) \<Longrightarrow> pingInterval_callback w = w"
  by (simp add: pingInterval_callback_def pingInterval_loop_connected)

text \<open>
  C6. A session whose socket stays open is left alone by the function the interval
  timer runs, however often it runs: no ping is sent to it, and it stays registered with
  its socket open. The same holds for a session that has a probe outstanding: the
  function never calls \<^verbatim>\<open>checkAlive\<close>.
\<close>

theorem interval_never_probes:
  "(pingInterval_callback ^^ n) one_client = one_client
   \<and> clients one_client = [0]
   \<and> socket_calls (sessions one_client 0) =
       [Send (VersionMessage (JStr ''8.0.1'') (JStr ''1.9.0'') (JNum 1) 0 8) False]
   \<and> (pingInterval_callback ^^ n) (checkAlive 0 one_client) = checkAlive 0 one_client
   \<and> clients (checkAlive 0 one_client) = [0]
   \<and> outstandingPing (sessions (checkAlive 0 one_client) 0)
   \<and> socket_calls (sessions (checkAlive 0 one_client) 0) =
       [Send (VersionMessage (JStr ''8.0.1'') (JStr ''1.9.0'') (JNum 1) 0 8) False, Ping]"
proof -
  let ?w = "checkAlive 0 one_client"
  have s: "sessions ?w 0 = (sessions one_client 0)\<lparr>outstandingPing := True,
             timeline := timeline (sessions one_client 0) @ [Set_outstandingPing True, Call Ping]\<rparr>"
    and c: "clients ?w = [0]"
    by (simp_all add: checkAlive_def one_client_session one_client_simps update_client_def
          socket_ping_def set_outstandingPing_def)
  have "list_all (\<lambda>c. isConnected (sessions one_client c)) (clients one_client)"
    by (simp add: isConnected_def one_client_session one_client_simps)
  then have t0: "pingInterval_callback one_client = one_client"
    by (rule pingInterval_callback_connected)
  from s c have "list_all (\<lambda>c. isConnected (sessions ?w c)) (clients ?w)"
    by (simp add: isConnected_def one_client_session)
  then have t: "pingInterval_callback ?w = ?w"
    by (rule pingInterval_callback_connected)
  have "(pingInterval_callback ^^ n) one_client = one_client"
    and "(pingInterval_callback ^^ n) ?w = ?w"
    by (induction n) (simp_all add: t0 t)
  with s c show ?thesis
    by (simp add: one_client_session one_client_simps socket_calls_def)
qed

text \<open>
  \<^verbatim>\<open>checkAlive\<close> itself, and the listener for \<^verbatim>\<open>pong\<close>, do what their names say.
\<close>

lemma checkAlive_probe_outstanding:
  "outstandingPing (sessions w c) \<Longrightarrow>
   socket_calls (sessions (checkAlive c w) c) = socket_calls (sessions w c) @ [Close]
   \<and> \<not> isConnected (sessions (checkAlive c w) c)"
  by (simp add: checkAlive_def disconnect_def update_client_def socket_close_def isConnected_def
        socket_calls_def calls_of_append)

lemma checkAlive_no_probe_outstanding:
  "\<not> outstandingPing (sessions w c) \<Longrightarrow>
   socket_calls (sessions (checkAlive c w) c) = socket_calls (sessions w c) @ [Ping]
   \<and> outstandingPing (sessions (checkAlive c w) c)"
  by (simp add: checkAlive_def update_client_def socket_ping_def set_outstandingPing_def
        socket_calls_def calls_of_append)

lemma pong_clears_flag: "\<not> outstandingPing (sessions (on_pong c w) c)"
  by (simp add: on_pong_def update_client_def set_outstandingPing_def)

end
